theory Spec2Isabelle
  imports Complex_Main "HOL-Library.Multiset"
begin

section \<open>The document model\<close>

text \<open>
  The compiler of \<^verbatim>\<open>src/n8n/SchemaToINodeProperties.ts\<close> reads an OpenAPI document that
  is already parsed into memory. Values taken from the document (examples, enumerated
  values) are JSON values.
\<close>

datatype json =
    JNull
  | JBool bool
  | JNum rat
  | JStr string
  | JArr "json list"
  | JObj "(string \<times> json) list"

text \<open>
  \<^verbatim>\<open>OpenAPIV3.ReferenceObject | T\<close>: a node of the document is either a pointer
  (\<^verbatim>\<open>{$ref: "#/components/..."}\<close>) or the object itself.
\<close>

datatype 'a ref_or = Reference string | Obj 'a

text \<open>The values of \<^verbatim>\<open>SchemaObject.type\<close>; an absent type is \<open>None\<close>.\<close>

datatype schema_type = T_boolean | T_string | T_object | T_array | T_number | T_integer

text \<open>
  \<^verbatim>\<open>OpenAPIV3.SchemaObject\<close>, with the members the compiler reads. Every member is
  optional, as in the declaration. \<open>s_properties\<close> lists the properties in the order in
  which \<^verbatim>\<open>for (const key in properties)\<close> enumerates them.
\<close>

datatype schema = SchemaObject
  (s_type: "schema_type option")
  (s_enum: "json list option")
  (s_items: "schema ref_or option")
  (s_properties: "(string \<times> schema ref_or) list option")
  (s_required: "string list option")
  (s_description: "string option")
  (s_example: "json option")
  (s_format: "string option")

text \<open>
  \<^verbatim>\<open>OpenAPIV3.ParameterObject\<close>. The member \<^verbatim>\<open>in\<close> is a string: the compiler
  compares it with three literals and rejects every other value. The compiler reads
  \<^verbatim>\<open>parameter.schema!!\<close>, so the schema is taken to be present.
\<close>

record ParameterObject =
  param_name :: string
  param_in :: string
  param_required :: "bool option"
  param_description :: "string option"
  param_example :: "json option"
  param_schema :: "schema ref_or"

text \<open>
  \<^verbatim>\<open>OpenAPIV3.MediaTypeObject\<close> (read as \<^verbatim>\<open>content.schema!!\<close>) and
  \<^verbatim>\<open>OpenAPIV3.RequestBodyObject\<close>. \<open>content\<close> lists the media types in the order of
  \<^verbatim>\<open>Object.keys(body.content)\<close>.
\<close>

record MediaTypeObject =
  media_schema :: "schema ref_or"

record RequestBodyObject =
  content :: "(string \<times> MediaTypeObject) list"

text \<open>
  The document, as far as pointers reach into it: for each kind of node, the component
  registry from pointer to node.
\<close>

record document =
  schemas :: "(string \<times> schema) list"
  parameters :: "(string \<times> ParameterObject) list"
  requestBodies :: "(string \<times> RequestBodyObject) list"

text \<open>
  The errors of the compiler. The source throws \<^verbatim>\<open>Error\<close> with a message; the
  constructors carry the names the specification gives them:
  \<^item> \<open>UnsupportedParameterLocation\<close>: \<^verbatim>\<open>Unknown parameter location '...'\<close>;
  \<^item> \<open>UnsupportedBodyContentType\<close>: \<^verbatim>\<open>No '...' or multipart/form-data content found\<close>;
  \<^item> \<open>UnsupportedBodySchema\<close>: \<^verbatim>\<open>Request body schema type '...' not supported\<close>;
  \<^item> \<open>MultipartSchemaMissingProperties\<close>:
    \<^verbatim>\<open>Multipart form data schema must have properties\<close>.
\<close>

datatype error =
    BrokenReference string
  | UnsupportedParameterLocation string
  | UnsupportedBodyContentType
  | UnsupportedBodySchema "schema_type option"
  | MultipartSchemaMissingProperties

section \<open>The collaborators: RefResolver and SchemaExample\<close>

text \<open>
  Modelled from the spec: \<^verbatim>\<open>RefResolver.resolve\<close> (\<^verbatim>\<open>src/openapi/RefResolver.ts\<close> is
  not among the sources). Section 4.1: if the node is a Reference, look it up in the
  document's component registry and return the target node; otherwise return the node
  unchanged; fail with \<open>BrokenReference\<close> when the pointer does not resolve. One
  indirection per call. The registry holds objects, so the result is used as an object,
  as the source does (\<^verbatim>\<open>resolve<OpenAPIV3.SchemaObject>\<close>).
\<close>

definition resolve :: "(string \<times> 'a) list \<Rightarrow> 'a ref_or \<Rightarrow> error + 'a" where
  "resolve registry node =
     (case node of
        Obj x \<Rightarrow> Inr x
      | Reference ptr \<Rightarrow>
          (case map_of registry ptr of
             None \<Rightarrow> Inl (BrokenReference ptr)
           | Some x \<Rightarrow> Inr x))"

text \<open>
  Modelled from the spec: the synthesis step of \<^verbatim>\<open>SchemaExample.extractExample\<close>
  (\<^verbatim>\<open>src/openapi/SchemaExample.ts\<close> is not among the sources). Section 4.2: the schema's
  own declared example if present; otherwise, for object schemas, a synthesized object
  built recursively from each property's own example, omitting properties lacking one;
  otherwise no value. A property given by a pointer contributes the declared example of
  its target (one resolution hop); an object none of whose properties has an example has
  no example (section 8: the default is the empty object when no example is present).
\<close>

definition synthesize ::
  "(string \<times> schema) list \<Rightarrow> (string \<times> json option ref_or) list \<Rightarrow> json option" where
  "synthesize registry ps =
     (let kvs = List.map_filter
                  (\<lambda>(k, p). case p of
                       Obj e \<Rightarrow> map_option (Pair k) e
                     | Reference ptr \<Rightarrow>
                         (case map_of registry ptr of
                            None \<Rightarrow> None
                          | Some s \<Rightarrow> map_option (Pair k) (s_example s)))
                  ps
      in if kvs = [] then None else Some (JObj kvs))"

text \<open>
  Modelled from the spec: \<^verbatim>\<open>SchemaExample.extractExample\<close> itself, by recursion
  over the properties that the schema holds inline.
\<close>

primrec extractExample :: "(string \<times> schema) list \<Rightarrow> schema \<Rightarrow> json option" where
  "extractExample registry (SchemaObject t en it props req d ex fmt) =
     (case ex of
        Some e \<Rightarrow> Some e
      | None \<Rightarrow>
          (if t = Some T_object then
             (case map_option (map (map_prod id (map_ref_or (extractExample registry)))) props of
                None \<Rightarrow> None
              | Some ps \<Rightarrow> synthesize registry ps)
           else None))"

section \<open>The output: field definitions\<close>

text \<open>
  Two library functions produce text that ends in the output: \<^verbatim>\<open>lodash.startCase\<close>
  and \<^verbatim>\<open>JSON.stringify(v, null, 2)\<close>. Neither belongs to the repository, so their
  applications stay symbolic: \<open>startCase v\<close> stands for the string lodash returns for
  \<open>v\<close>, and \<open>JSON_stringify v\<close> for the text of the JSON value \<open>v\<close>. Whatever is
  proved below holds for every behaviour of the two.
\<close>

datatype label = startCase json

datatype js_value = Value json | JSON_stringify json

text \<open>
  JavaScript's truthiness, for \<^verbatim>\<open>field.default ? ... : ...\<close>. \<open>None\<close> is
  \<^verbatim>\<open>undefined\<close>. The text of a JSON value is never the empty string.
\<close>

fun truthy :: "js_value option \<Rightarrow> bool" where
  "truthy None = False"
| "truthy (Some (Value JNull)) = False"
| "truthy (Some (Value (JBool b))) = b"
| "truthy (Some (Value (JNum n))) = (n \<noteq> 0)"
| "truthy (Some (Value (JStr s))) = (s \<noteq> [])"
| "truthy (Some (Value (JArr xs))) = True"
| "truthy (Some (Value (JObj kvs))) = True"
| "truthy (Some (JSON_stringify v)) = True"

text \<open>The values of \<^verbatim>\<open>NodePropertyTypes\<close> that the compiler assigns.\<close>

datatype NodePropertyTypes = N_boolean | N_string | N_json | N_number | N_options

record INodePropertyOptions =
  option_name :: label
  option_value :: json

text \<open>
  \<^verbatim>\<open>routing.request\<close>: the compiler sets one of \<^verbatim>\<open>qs\<close>, \<^verbatim>\<open>headers\<close> and
  \<^verbatim>\<open>body\<close>. The body is either one expression for the whole body or an object from
  property name to expression.
\<close>

datatype request_body = Whole string | Keyed "(string \<times> string) list"

record IHttpRequestOptions =
  qs :: "(string \<times> string) list option"
  headers :: "(string \<times> string) list option"
  body :: "request_body option"

record INodePropertyRouting =
  request :: IHttpRequestOptions

record INodePropertyTypeOptions =
  isFilePath :: "bool option"

text \<open>\<^verbatim>\<open>displayOptions.show\<close>, with its two members.\<close>

record IDisplayOptions =
  show_resource :: "string list"
  show_operation :: "string list"

text \<open>
  \<^verbatim>\<open>Partial<INodeProperties>\<close>: every member may be absent. The same type serves for
  \<^verbatim>\<open>FromSchemaNodeProperty\<close>, which picks four of the members.
\<close>

record INodeProperties =
  displayName :: "label option"
  name :: "string option"
  type :: "NodePropertyTypes option"
  default :: "js_value option"
  description :: "string option"
  options :: "INodePropertyOptions list option"
  required :: "bool option"
  routing :: "INodePropertyRouting option"
  typeOptions :: "INodePropertyTypeOptions option"
  displayOptions :: "IDisplayOptions option"

text \<open>The object literal \<^verbatim>\<open>{}\<close>.\<close>

definition empty_properties :: INodeProperties where
  "empty_properties =
     \<lparr>displayName = None, name = None, type = None, default = None, description = None,
      options = None, required = None, routing = None, typeOptions = None,
      displayOptions = None\<rparr>"

text \<open>The three extraction expressions.\<close>

definition value_expr :: string where
  "value_expr = ''={{ $value }}''"

definition json_parse_expr :: string where
  "json_parse_expr = ''={{ JSON.parse($value) }}''"

definition binary_expr :: string where
  "binary_expr = ''={{ $binary[$value] }}''"

definition qs_routing :: "string \<Rightarrow> string \<Rightarrow> INodePropertyRouting" where
  "qs_routing k e = \<lparr>request = \<lparr>qs = Some [(k, e)], headers = None, body = None\<rparr>\<rparr>"

definition headers_routing :: "string \<Rightarrow> string \<Rightarrow> INodePropertyRouting" where
  "headers_routing k e = \<lparr>request = \<lparr>qs = None, headers = Some [(k, e)], body = None\<rparr>\<rparr>"

definition body_routing :: "request_body \<Rightarrow> INodePropertyRouting" where
  "body_routing b = \<lparr>request = \<lparr>qs = None, headers = None, body = Some b\<rparr>\<rparr>"

section \<open>SchemaToINodeProperties.ts\<close>

text \<open>
  \<^verbatim>\<open>if (!obj.required) delete obj.required\<close>: only \<^verbatim>\<open>required: true\<close> stays.
\<close>

definition delete_falsy_required :: "INodeProperties \<Rightarrow> INodeProperties" where
  "delete_falsy_required obj =
     (if required obj = Some True then obj else obj\<lparr>required := None\<rparr>)"

text \<open>
  \<^verbatim>\<open>lodash.defaults(object, source)\<close> for one source: a member of the source is
  assigned where the object's member is \<^verbatim>\<open>undefined\<close>.
\<close>

definition defaults :: "INodeProperties \<Rightarrow> INodeProperties \<Rightarrow> INodeProperties" where
  "defaults obj src =
     \<lparr>displayName = (case displayName obj of None \<Rightarrow> displayName src | Some v \<Rightarrow> Some v),
      name = (case name obj of None \<Rightarrow> name src | Some v \<Rightarrow> Some v),
      type = (case type obj of None \<Rightarrow> type src | Some v \<Rightarrow> Some v),
      default = (case default obj of None \<Rightarrow> default src | Some v \<Rightarrow> Some v),
      description = (case description obj of None \<Rightarrow> description src | Some v \<Rightarrow> Some v),
      options = (case options obj of None \<Rightarrow> options src | Some v \<Rightarrow> Some v),
      required = (case required obj of None \<Rightarrow> required src | Some v \<Rightarrow> Some v),
      routing = (case routing obj of None \<Rightarrow> routing src | Some v \<Rightarrow> Some v),
      typeOptions = (case typeOptions obj of None \<Rightarrow> typeOptions src | Some v \<Rightarrow> Some v),
      displayOptions =
        (case displayOptions obj of None \<Rightarrow> displayOptions src | Some v \<Rightarrow> Some v)\<rparr>"

text \<open>\<^verbatim>\<open>combine(...sources)\<close>: the sources are applied from left to right.\<close>

definition combine :: "INodeProperties list \<Rightarrow> INodeProperties" where
  "combine sources = delete_falsy_required (foldl defaults empty_properties sources)"

text \<open>
  \<^verbatim>\<open>/application\/json.*/.test(key)\<close>: the expression is not anchored, so it holds of
  a key as soon as \<^verbatim>\<open>application/json\<close> occurs somewhere in it.
\<close>

fun starts_with :: "string \<Rightarrow> string \<Rightarrow> bool" where
  "starts_with [] s = True"
| "starts_with (p # ps) [] = False"
| "starts_with (p # ps) (c # cs) = (p = c \<and> starts_with ps cs)"

fun regexp_test :: "string \<Rightarrow> bool" where
  "regexp_test [] = False"
| "regexp_test (c # cs) = (starts_with ''application/json'' (c # cs) \<or> regexp_test cs)"

text \<open>
  \<^verbatim>\<open>findKey(obj, regexp)\<close>: the value of the first key that the test accepts. The
  source returns \<^verbatim>\<open>undefined\<close> for a falsy key, that is for the empty string.
\<close>

definition findKey :: "(string \<times> 'a) list \<Rightarrow> (string \<Rightarrow> bool) \<Rightarrow> 'a option" where
  "findKey obj regexp =
     (case find regexp (map fst obj) of
        None \<Rightarrow> None
      | Some k \<Rightarrow> (if k = [] then None else map_of obj k))"

text \<open>
  The instance of the class: its two members. The resolver holds the document; the
  example extractor is the method \<^verbatim>\<open>extractExample\<close>.
\<close>

record N8NINodeProperties =
  refResolver :: document
  schemaExample :: "schema \<Rightarrow> json option"

text \<open>The constructor: \<^verbatim>\<open>new RefResolver(doc)\<close> and \<^verbatim>\<open>new SchemaExample(doc)\<close>.\<close>

definition new_N8NINodeProperties :: "document \<Rightarrow> N8NINodeProperties" where
  "new_N8NINodeProperties doc =
     \<lparr>refResolver = doc, schemaExample = extractExample (schemas doc)\<rparr>"

text \<open>
  The \<^verbatim>\<open>switch (schema.type)\<close> of \<^verbatim>\<open>fromSchema\<close>: the field type and the default
  value, from the schema's type and the extracted example.
\<close>

fun type_and_default :: "schema_type option \<Rightarrow> json option \<Rightarrow> NodePropertyTypes \<times> js_value" where
  "type_and_default (Some T_boolean) ex =
     (N_boolean, case ex of Some v \<Rightarrow> Value v | None \<Rightarrow> Value (JBool True))"
| "type_and_default (Some T_string) ex =
     (N_string, case ex of Some v \<Rightarrow> Value v | None \<Rightarrow> Value (JStr ''''))"
| "type_and_default None ex =
     (N_string, case ex of Some v \<Rightarrow> Value v | None \<Rightarrow> Value (JStr ''''))"
| "type_and_default (Some T_object) ex =
     (N_json, case ex of Some v \<Rightarrow> JSON_stringify v | None \<Rightarrow> Value (JStr ''{}''))"
| "type_and_default (Some T_array) ex =
     (N_json, case ex of Some v \<Rightarrow> JSON_stringify v | None \<Rightarrow> Value (JStr ''[]''))"
| "type_and_default (Some T_number) ex =
     (N_number, case ex of Some v \<Rightarrow> Value v | None \<Rightarrow> Value (JNum 0))"
| "type_and_default (Some T_integer) ex =
     (N_number, case ex of Some v \<Rightarrow> Value v | None \<Rightarrow> Value (JNum 0))"

text \<open>\<^verbatim>\<open>schema.enum.map(value => ({name: lodash.startCase(value), value: value}))\<close>.\<close>

definition enum_options :: "json list \<Rightarrow> INodePropertyOptions list" where
  "enum_options vs = map (\<lambda>v. \<lparr>option_name = startCase v, option_value = v\<rparr>) vs"

definition fromSchema :: "N8NINodeProperties \<Rightarrow> schema ref_or \<Rightarrow> error + INodeProperties" where
  "fromSchema this sch =
     (case resolve (schemas (refResolver this)) sch of
        Inl e \<Rightarrow> Inl e
      | Inr s \<Rightarrow>
          (let (ty, defaultValue) = type_and_default (s_type s) (schemaExample this s);
               field = empty_properties
                 \<lparr>type := Some ty, default := Some defaultValue, description := s_description s\<rparr>
           in case s_enum s of
                Some (v # vs) \<Rightarrow>
                  Inr (field
                    \<lparr>type := Some N_options,
                     options := Some (enum_options (v # vs)),
                     default := (if truthy (default field) then default field
                                 else Some (Value v))\<rparr>)
              | _ \<Rightarrow> Inr field))"

definition fromParameter ::
  "N8NINodeProperties \<Rightarrow> ParameterObject ref_or \<Rightarrow> error + INodeProperties" where
  "fromParameter this prm =
     (case resolve (parameters (refResolver this)) prm of
        Inl e \<Rightarrow> Inl e
      | Inr parameter \<Rightarrow>
          (case fromSchema this (param_schema parameter) of
             Inl e \<Rightarrow> Inl e
           | Inr fieldSchemaKeys \<Rightarrow>
               (let fieldParameterKeys = empty_properties
                      \<lparr>displayName := Some (startCase (JStr (param_name parameter))),
                       name := Some (param_name parameter),
                       required := param_required parameter,
                       description := param_description parameter,
                       default := map_option Value (param_example parameter)\<rparr>;
                    field = combine [fieldParameterKeys, fieldSchemaKeys]
                in if param_in parameter = ''query'' then
                     Inr (delete_falsy_required
                       (field\<lparr>routing := Some (qs_routing (param_name parameter) value_expr)\<rparr>))
                   else if param_in parameter = ''path'' then
                     Inr (delete_falsy_required (field\<lparr>required := Some True\<rparr>))
                   else if param_in parameter = ''header'' then
                     Inr (delete_falsy_required
                       (field\<lparr>routing :=
                          Some (headers_routing (param_name parameter) value_expr)\<rparr>))
                   else Inl (UnsupportedParameterLocation (param_in parameter)))))"

text \<open>
  A \<^verbatim>\<open>for\<close> loop that pushes one field per element and is left by the first
  exception.
\<close>

fun for_each :: "('a \<Rightarrow> error + 'b) \<Rightarrow> 'a list \<Rightarrow> error + 'b list" where
  "for_each f [] = Inr []"
| "for_each f (x # xs) =
     (case f x of
        Inl e \<Rightarrow> Inl e
      | Inr y \<Rightarrow> (case for_each f xs of Inl e \<Rightarrow> Inl e | Inr ys \<Rightarrow> Inr (y # ys)))"

definition fromParameters ::
  "N8NINodeProperties \<Rightarrow> ParameterObject ref_or list option \<Rightarrow> error + INodeProperties list" where
  "fromParameters this prms =
     (case prms of
        None \<Rightarrow> Inr []
      | Some ps \<Rightarrow> for_each (fromParameter this) ps)"

definition fromSchemaProperty ::
  "N8NINodeProperties \<Rightarrow> string \<Rightarrow> schema ref_or \<Rightarrow> error + INodeProperties" where
  "fromSchemaProperty this nm property =
     (case fromSchema this property of
        Inl e \<Rightarrow> Inl e
      | Inr fieldSchemaKeys \<Rightarrow>
          (let fieldParameterKeys = empty_properties
                 \<lparr>displayName := Some (startCase (JStr nm)), name := Some nm\<rparr>
           in Inr (combine [fieldParameterKeys, fieldSchemaKeys])))"

text \<open>
  The array branch of \<^verbatim>\<open>fromRequestBody\<close> (lines 179 to 192): the single field
  \<^verbatim>\<open>body\<close>, only when the schema has type \<^verbatim>\<open>array\<close> and an \<^verbatim>\<open>items\<close> member.
\<close>

definition array_body_fields ::
  "N8NINodeProperties \<Rightarrow> schema \<Rightarrow> error + INodeProperties list" where
  "array_body_fields this s =
     (case (s_type s, s_items s) of
        (Some T_array, Some its) \<Rightarrow>
          (case resolve (schemas (refResolver this)) its of
             Inl e \<Rightarrow> Inl e
           | Inr innerSchema \<Rightarrow>
               (case fromSchemaProperty this ''body'' (Obj innerSchema) of
                  Inl e \<Rightarrow> Inl e
                | Inr fieldPropertyKeys \<Rightarrow>
                    (let fieldDefaults = empty_properties\<lparr>required := Some (s_required s \<noteq> None)\<rparr>;
                         field = combine [fieldDefaults, fieldPropertyKeys]
                     in Inr [field\<lparr>routing := Some (body_routing (Whole json_parse_expr))\<rparr>])))
      | _ \<Rightarrow> Inr [])"

text \<open>
  The body of the loop over the properties in \<^verbatim>\<open>fromRequestBody\<close> (lines 196 to 221).
  \<^verbatim>\<open>schema.required && schema.required?.includes(key)\<close> is \<^verbatim>\<open>undefined\<close> without a
  \<^verbatim>\<open>required\<close> list.
\<close>

definition json_property_field ::
  "N8NINodeProperties \<Rightarrow> schema \<Rightarrow> string \<times> schema ref_or \<Rightarrow> error + INodeProperties" where
  "json_property_field this s kp =
     (case kp of (key, property) \<Rightarrow>
        (case fromSchemaProperty this key property of
           Inl e \<Rightarrow> Inl e
         | Inr fieldPropertyKeys \<Rightarrow>
             (let fieldDefaults = empty_properties
                    \<lparr>required := map_option (\<lambda>r. key \<in> set r) (s_required s)\<rparr>;
                  field = combine [fieldDefaults, fieldPropertyKeys]
              in if type field = Some N_json then
                   Inr (field\<lparr>routing := Some (body_routing (Keyed [(key, json_parse_expr)]))\<rparr>)
                 else
                   Inr (field\<lparr>routing := Some (body_routing (Keyed [(key, value_expr)]))\<rparr>))))"

text \<open>The body of the loop in \<^verbatim>\<open>fromMultipartFormData\<close> (lines 234 to 271).\<close>

definition multipart_property_field ::
  "N8NINodeProperties \<Rightarrow> schema \<Rightarrow> string \<times> schema ref_or \<Rightarrow> error + INodeProperties" where
  "multipart_property_field this s kp =
     (case kp of (key, property) \<Rightarrow>
        (case resolve (schemas (refResolver this)) property of
           Inl e \<Rightarrow> Inl e
         | Inr resolvedProperty \<Rightarrow>
             (case fromSchemaProperty this key (Obj resolvedProperty) of
                Inl e \<Rightarrow> Inl e
              | Inr fieldPropertyKeys \<Rightarrow>
                  (let fieldDefaults = empty_properties
                         \<lparr>required := map_option (\<lambda>r. key \<in> set r) (s_required s)\<rparr>;
                       field = combine [fieldDefaults, fieldPropertyKeys]
                   in if s_format resolvedProperty = Some ''binary'' then
                        Inr (field
                          \<lparr>type := Some N_string,
                           typeOptions := Some
                             ((case typeOptions field of
                                 None \<Rightarrow> \<lparr>isFilePath = None\<rparr>
                               | Some t \<Rightarrow> t)\<lparr>isFilePath := Some True\<rparr>),
                           routing := Some (body_routing (Keyed [(key, binary_expr)]))\<rparr>)
                      else
                        Inr (field
                          \<lparr>routing := Some (body_routing (Keyed [(key, value_expr)]))\<rparr>)))))"

definition fromMultipartFormData ::
  "N8NINodeProperties \<Rightarrow> MediaTypeObject \<Rightarrow> error + INodeProperties list" where
  "fromMultipartFormData this cnt =
     (case resolve (schemas (refResolver this)) (media_schema cnt) of
        Inl e \<Rightarrow> Inl e
      | Inr s \<Rightarrow>
          (case s_properties s of
             None \<Rightarrow> Inl MultipartSchemaMissingProperties
           | Some props \<Rightarrow> for_each (multipart_property_field this s) props))"

definition fromRequestBody ::
  "N8NINodeProperties \<Rightarrow> RequestBodyObject ref_or option \<Rightarrow> error + INodeProperties list" where
  "fromRequestBody this bdy =
     (case bdy of
        None \<Rightarrow> Inr []
      | Some b \<Rightarrow>
          (case resolve (requestBodies (refResolver this)) b of
             Inl e \<Rightarrow> Inl e
           | Inr rb \<Rightarrow>
               (case map_of (content rb) ''multipart/form-data'' of
                  Some multipartContent \<Rightarrow> fromMultipartFormData this multipartContent
                | None \<Rightarrow>
                    (case findKey (content rb) regexp_test of
                       None \<Rightarrow> Inl UnsupportedBodyContentType
                     | Some cnt \<Rightarrow>
                         (case resolve (schemas (refResolver this)) (media_schema cnt) of
                            Inl e \<Rightarrow> Inl e
                          | Inr s \<Rightarrow>
                              if s_properties s = None \<and> s_type s \<noteq> Some T_object
                                 \<and> s_type s \<noteq> Some T_array
                              then Inl (UnsupportedBodySchema (s_type s))
                              else
                                (case array_body_fields this s of
                                   Inl e \<Rightarrow> Inl e
                                 | Inr fields1 \<Rightarrow>
                                     (case for_each (json_property_field this s)
                                             (case s_properties s of None \<Rightarrow> [] | Some ps \<Rightarrow> ps) of
                                        Inl e \<Rightarrow> Inl e
                                      | Inr fields2 \<Rightarrow> Inr (fields1 @ fields2))))))))"

section \<open>The parser: parseFields\<close>

text \<open>
  \<^verbatim>\<open>sessionFirst(a, b)\<close>, the comparison function handed to \<^verbatim>\<open>fields.sort\<close>.
\<close>

definition sessionFirst :: "INodeProperties \<Rightarrow> INodeProperties \<Rightarrow> int" where
  "sessionFirst a b =
     (if name a = Some ''session'' then - 1
      else if name b = Some ''session'' then 1
      else 0)"

text \<open>The fields that \<^verbatim>\<open>sessionFirst\<close> puts first.\<close>

definition is_session :: "INodeProperties \<Rightarrow> bool" where
  "is_session f = (name f = Some ''session'')"

text \<open>
  \<^verbatim>\<open>Array.prototype.sort(comparefn)\<close> belongs to the engine. ECMAScript fixes its
  result, the stable sorted arrangement, only for a consistent comparison function, and
  leaves the order to the implementation otherwise. A comparison function is consistent
  when it orders any two elements the same way from both sides, and being equal, being
  before and being after are transitive. ECMAScript states this for all values, a value
  paired with itself included, and obtains the agreement of the two sides from there. A
  sort applies the function to the elements at two different positions of the array, so
  the conditions are required of the elements at different positions, and the agreement
  of the two sides is stated outright. (\<^verbatim>\<open>sessionFirst\<close> returns \<open>-1\<close> for a field
  named session paired with itself, which no sort asks for.)
\<close>

definition consistent_comparator :: "('a \<Rightarrow> 'a \<Rightarrow> int) \<Rightarrow> 'a list \<Rightarrow> bool" where
  "consistent_comparator comparefn xs \<longleftrightarrow>
     (\<forall>i < length xs. \<forall>j < length xs. i \<noteq> j \<longrightarrow>
        (comparefn (xs ! i) (xs ! j) < 0 \<longleftrightarrow> comparefn (xs ! j) (xs ! i) > 0))
   \<and> (\<forall>i < length xs. \<forall>j < length xs. \<forall>k < length xs. i \<noteq> j \<and> j \<noteq> k \<and> i \<noteq> k \<longrightarrow>
        (comparefn (xs ! i) (xs ! j) = 0 \<and> comparefn (xs ! j) (xs ! k) = 0 \<longrightarrow>
           comparefn (xs ! i) (xs ! k) = 0)
      \<and> (comparefn (xs ! i) (xs ! j) < 0 \<and> comparefn (xs ! j) (xs ! k) < 0 \<longrightarrow>
           comparefn (xs ! i) (xs ! k) < 0)
      \<and> (comparefn (xs ! i) (xs ! j) > 0 \<and> comparefn (xs ! j) (xs ! k) > 0 \<longrightarrow>
           comparefn (xs ! i) (xs ! k) > 0))"

text \<open>
  The stable sorted arrangement, by insertion: an element moves behind another one only
  when the comparison function puts it strictly after it.
\<close>

fun insert_sorted :: "('a \<Rightarrow> 'a \<Rightarrow> int) \<Rightarrow> 'a \<Rightarrow> 'a list \<Rightarrow> 'a list" where
  "insert_sorted comparefn x [] = [x]"
| "insert_sorted comparefn x (y # ys) =
     (if comparefn x y > 0 then y # insert_sorted comparefn x ys else x # y # ys)"

definition stable_sort :: "('a \<Rightarrow> 'a \<Rightarrow> int) \<Rightarrow> 'a list \<Rightarrow> 'a list" where
  "stable_sort comparefn xs = foldr (insert_sorted comparefn) xs []"

text \<open>
  The arrays that \<^verbatim>\<open>xs.sort(comparefn)\<close> may leave: the stable sorted arrangement
  when the comparison function is consistent on \<open>xs\<close>, and any arrangement of the
  elements of \<open>xs\<close> otherwise.
\<close>

definition array_sort :: "('a \<Rightarrow> 'a \<Rightarrow> int) \<Rightarrow> 'a list \<Rightarrow> 'a list set" where
  "array_sort comparefn xs =
     (if consistent_comparator comparefn xs then {stable_sort comparefn xs}
      else {ys. mset ys = mset xs})"

text \<open>The members of the operation that \<^verbatim>\<open>parseFields\<close> reads.\<close>

record OperationObject =
  op_parameters :: "ParameterObject ref_or list option"
  op_requestBody :: "RequestBodyObject ref_or option"

text \<open>
  \<^verbatim>\<open>parseFields\<close>: the results that a run may return. There is one, unless the sort
  is left to the implementation.
\<close>

definition parseFields ::
  "N8NINodeProperties \<Rightarrow> string \<Rightarrow> string \<Rightarrow> OperationObject
     \<Rightarrow> (error + INodeProperties list) set" where
  "parseFields n8nNodeProperties resourceName operationName operation =
     (case fromParameters n8nNodeProperties (op_parameters operation) of
        Inl e \<Rightarrow> {Inl e}
      | Inr parameterFields \<Rightarrow>
          (case fromRequestBody n8nNodeProperties (op_requestBody operation) of
             Inl e \<Rightarrow> {Inl e}
           | Inr bodyFields \<Rightarrow>
               (let fields = parameterFields @ bodyFields;
                    shown = \<lparr>show_resource = [resourceName], show_operation = [operationName]\<rparr>;
                    fields' = map (\<lambda>field. field\<lparr>displayOptions := Some shown\<rparr>) fields
                in Inr ` array_sort sessionFirst fields')))"

section \<open>The order of the properties of an object\<close>

text \<open>
  \<^verbatim>\<open>for (const key in properties)\<close> enumerates the properties of a JavaScript object
  in the order of its own property keys: the names that are array indices come first,
  in ascending numeric order, and the other names follow in the order in which they
  were added, which for a parsed document is the order of declaration. An array index
  is the decimal numeral, without leading zero, of a number below \<open>2^32 - 1\<close>.
\<close>

definition digit_value :: "char \<Rightarrow> nat" where
  "digit_value c = length (takeWhile (\<lambda>d. d \<noteq> c) ''0123456789'')"

definition decimal_value :: "string \<Rightarrow> nat" where
  "decimal_value k = foldl (\<lambda>n c. 10 * n + digit_value c) 0 k"

definition array_index :: "string \<Rightarrow> nat option" where
  "array_index k =
     (if k \<noteq> [] \<and> list_all (\<lambda>c. c \<in> set ''0123456789'') k
         \<and> (k = ''0'' \<or> hd k \<noteq> CHR ''0'') \<and> decimal_value k < 4294967295
      then Some (decimal_value k) else None)"

text \<open>
  The enumeration order of the object with the given properties, listed in the order of
  their declaration under names that differ.
\<close>

definition property_order :: "(string \<times> 'a) list \<Rightarrow> (string \<times> 'a) list" where
  "property_order kvs =
     sort_key (\<lambda>kv. case array_index (fst kv) of Some n \<Rightarrow> n | None \<Rightarrow> 0)
       (filter (\<lambda>kv. array_index (fst kv) \<noteq> None) kvs)
     @ filter (\<lambda>kv. array_index (fst kv) = None) kvs"

section \<open>Concrete inputs\<close>

text \<open>
  The inputs on which the properties below are instantiated: schemas that have one
  member besides their type, a document without components, and the scenarios of
  section 8 of the specification.
\<close>

definition typed_schema :: "schema_type option \<Rightarrow> schema" where
  "typed_schema t = SchemaObject t None None None None None None None"

definition object_schema ::
  "(string \<times> schema ref_or) list \<Rightarrow> string list option \<Rightarrow> schema" where
  "object_schema props req = SchemaObject (Some T_object) None None (Some props) req None None None"

definition array_schema :: "schema ref_or option \<Rightarrow> schema" where
  "array_schema its = SchemaObject (Some T_array) None its None None None None None"

definition binary_schema :: schema where
  "binary_schema = SchemaObject (Some T_string) None None None None None None (Some ''binary'')"

text \<open>\<^verbatim>\<open>{type: 'boolean', enum: [false, true]}\<close>.\<close>

definition boolean_enum_schema :: schema where
  "boolean_enum_schema =
     SchemaObject (Some T_boolean) (Some [JBool False, JBool True]) None None None None None None"

text \<open>\<^verbatim>\<open>{type: 'string', enum: ['asc', 'desc']}\<close>.\<close>

definition string_enum_schema :: schema where
  "string_enum_schema =
     SchemaObject (Some T_string) (Some [JStr ''asc'', JStr ''desc'']) None None None None None None"

definition empty_document :: document where
  "empty_document = \<lparr>schemas = [], parameters = [], requestBodies = []\<rparr>"

text \<open>A parameter with a string schema, no description and no example.\<close>

definition string_parameter :: "string \<Rightarrow> string \<Rightarrow> bool option \<Rightarrow> ParameterObject" where
  "string_parameter nm loc req =
     \<lparr>param_name = nm, param_in = loc, param_required = req, param_description = None,
      param_example = None, param_schema = Obj (typed_schema (Some T_string))\<rparr>"

text \<open>A request body with one content.\<close>

definition json_body :: "string \<Rightarrow> schema \<Rightarrow> RequestBodyObject" where
  "json_body label s = \<lparr>content = [(label, \<lparr>media_schema = Obj s\<rparr>)]\<rparr>"

text \<open>
  Scenario A: a JSON body with the properties name (string, required), active (boolean)
  and meta (object).
\<close>

definition scenario_a_body :: RequestBodyObject where
  "scenario_a_body = json_body ''application/json''
     (object_schema
        [(''name'', Obj (typed_schema (Some T_string))),
         (''active'', Obj (typed_schema (Some T_boolean))),
         (''meta'', Obj (typed_schema (Some T_object)))]
        (Some [''name'']))"

text \<open>Scenario B: a JSON body that is an array of strings.\<close>

definition scenario_b_body :: RequestBodyObject where
  "scenario_b_body = json_body ''application/json''
     (array_schema (Some (Obj (typed_schema (Some T_string)))))"

text \<open>Scenario C: a multipart content with a binary property and an object property.\<close>

definition scenario_c_content :: MediaTypeObject where
  "scenario_c_content = \<lparr>media_schema = Obj (object_schema
     [(''file'', Obj binary_schema), (''note'', Obj (typed_schema (Some T_object)))] None)\<rparr>"

text \<open>
  An operation with a path parameter, a query parameter named session and the body of
  scenario A.
\<close>

definition session_operation :: OperationObject where
  "session_operation =
     \<lparr>op_parameters = Some
        [Obj (string_parameter ''id'' ''path'' None),
         Obj (string_parameter ''session'' ''query'' (Some True))],
      op_requestBody = Some (Obj scenario_a_body)\<rparr>"

text \<open>
  An operation with a query parameter named session and a JSON body with a property
  named session.
\<close>

definition duplicate_session_operation :: OperationObject where
  "duplicate_session_operation =
     \<lparr>op_parameters = Some [Obj (string_parameter ''session'' ''query'' None)],
      op_requestBody = Some (Obj (json_body ''application/json''
        (object_schema [(''session'', Obj (typed_schema (Some T_string)))] None)))\<rparr>"

text \<open>
  An operation without parameters whose JSON body declares the property name and then
  the property 1.
\<close>

definition index_named_operation :: OperationObject where
  "index_named_operation =
     \<lparr>op_parameters = None,
      op_requestBody = Some (Obj (json_body ''application/json''
        (object_schema
           (property_order
              [(''name'', Obj (typed_schema (Some T_string))),
               (''1'', Obj (typed_schema (Some T_string)))])
           None)))\<rparr>"

text \<open>
  The field expected for a property of a body: its name, type, default, required flag
  and the expression stored under its name.
\<close>

definition body_field ::
  "string \<Rightarrow> NodePropertyTypes \<Rightarrow> json \<Rightarrow> bool \<Rightarrow> string \<Rightarrow> INodeProperties" where
  "body_field key ty dflt req expr =
     \<lparr>displayName = Some (startCase (JStr key)), name = Some key, type = Some ty,
      default = Some (Value dflt), description = None, options = None,
      required = (if req then Some True else None),
      routing = Some (body_routing (Keyed [(key, expr)])),
      typeOptions = None, displayOptions = None\<rparr>"

section \<open>Properties\<close>

subsection \<open>Resolution, combination and loops\<close>

lemma resolve_Obj: "resolve registry (Obj x) = Inr x"
  by (simp add: resolve_def)

text \<open>
  \<^verbatim>\<open>combine(a, b)\<close> member by member: the first source wins, and \<^verbatim>\<open>required\<close>
  survives only as \<^verbatim>\<open>true\<close>.
\<close>

lemma combine_pair:
  "displayName (combine [a, b]) = (case displayName a of None \<Rightarrow> displayName b | Some v \<Rightarrow> Some v)"
  "name (combine [a, b]) = (case name a of None \<Rightarrow> name b | Some v \<Rightarrow> Some v)"
  "type (combine [a, b]) = (case type a of None \<Rightarrow> type b | Some v \<Rightarrow> Some v)"
  "default (combine [a, b]) = (case default a of None \<Rightarrow> default b | Some v \<Rightarrow> Some v)"
  "description (combine [a, b]) = (case description a of None \<Rightarrow> description b | Some v \<Rightarrow> Some v)"
  "options (combine [a, b]) = (case options a of None \<Rightarrow> options b | Some v \<Rightarrow> Some v)"
  "required (combine [a, b]) =
     (if (case required a of None \<Rightarrow> required b | Some v \<Rightarrow> Some v) = Some True then Some True
      else None)"
  "routing (combine [a, b]) = (case routing a of None \<Rightarrow> routing b | Some v \<Rightarrow> Some v)"
  "typeOptions (combine [a, b]) = (case typeOptions a of None \<Rightarrow> typeOptions b | Some v \<Rightarrow> Some v)"
  "displayOptions (combine [a, b]) =
     (case displayOptions a of None \<Rightarrow> displayOptions b | Some v \<Rightarrow> Some v)"
  by (simp_all add: combine_def defaults_def delete_falsy_required_def empty_properties_def
      split: option.splits)

lemma delete_falsy_required_fields:
  "displayName (delete_falsy_required f) = displayName f"
  "name (delete_falsy_required f) = name f"
  "type (delete_falsy_required f) = type f"
  "default (delete_falsy_required f) = default f"
  "description (delete_falsy_required f) = description f"
  "options (delete_falsy_required f) = options f"
  "required (delete_falsy_required f) = (if required f = Some True then Some True else None)"
  "routing (delete_falsy_required f) = routing f"
  "typeOptions (delete_falsy_required f) = typeOptions f"
  "displayOptions (delete_falsy_required f) = displayOptions f"
  by (simp_all add: delete_falsy_required_def)

text \<open>
  A loop returns a list exactly when its body returns for every element, in order.
\<close>

lemma for_each_Inr_iff:
  "for_each f xs = Inr ys \<longleftrightarrow> list_all2 (\<lambda>x y. f x = Inr y) xs ys"
proof (induction xs arbitrary: ys)
  case Nil
  show ?case by auto
next
  case (Cons x xs)
  show ?case
    by (cases "f x"; cases "for_each f xs") (auto simp: list_all2_Cons1 Cons.IH [symmetric])
qed







subsection \<open>The compiler on the concrete inputs\<close>

text \<open>
  The scenarios of section 8 of the specification, computed by unfolding the
  definitions: a JSON object body (A), a JSON array body (B), a multipart body (C) and
  the parameters of an operation with a \<^verbatim>\<open>session\<close> parameter.
\<close>

lemmas compiler_defs =
  fromSchema_def fromSchemaProperty_def fromParameter_def fromParameters_def
  fromRequestBody_def fromMultipartFormData_def array_body_fields_def
  json_property_field_def multipart_property_field_def
  resolve_def findKey_def combine_def defaults_def delete_falsy_required_def
  empty_properties_def enum_options_def new_N8NINodeProperties_def

lemmas input_defs =
  typed_schema_def empty_document_def string_parameter_def json_body_def object_schema_def
  array_schema_def binary_schema_def scenario_a_body_def scenario_b_body_def
  scenario_c_content_def session_operation_def body_field_def
  boolean_enum_schema_def duplicate_session_operation_def index_named_operation_def

lemma scenario_a_fields:
  "fromRequestBody (new_N8NINodeProperties empty_document) (Some (Obj scenario_a_body)) =
     Inr [body_field ''name'' N_string (JStr '''') True value_expr,
          body_field ''active'' N_boolean (JBool True) False value_expr,
          body_field ''meta'' N_json (JStr ''{}'') False json_parse_expr]"
  by (simp add: compiler_defs input_defs)

lemma scenario_b_fields:
  "fromRequestBody (new_N8NINodeProperties empty_document) (Some (Obj scenario_b_body)) =
     Inr [\<lparr>displayName = Some (startCase (JStr ''body'')), name = Some ''body'',
            type = Some N_string, default = Some (Value (JStr '''')), description = None,
            options = None, required = None,
            routing = Some (body_routing (Whole json_parse_expr)),
            typeOptions = None, displayOptions = None\<rparr>]"
  by (simp add: compiler_defs input_defs)

lemma scenario_c_fields:
  "fromMultipartFormData (new_N8NINodeProperties empty_document) scenario_c_content =
     Inr [(body_field ''file'' N_string (JStr '''') False binary_expr)
            \<lparr>typeOptions := Some \<lparr>isFilePath = Some True\<rparr>\<rparr>,
          body_field ''note'' N_json (JStr ''{}'') False value_expr]"
  by (simp add: compiler_defs input_defs)

lemma session_operation_parameters:
  "fromParameters (new_N8NINodeProperties empty_document) (op_parameters session_operation) =
     Inr [\<lparr>displayName = Some (startCase (JStr ''id'')), name = Some ''id'',
            type = Some N_string, default = Some (Value (JStr '''')), description = None,
            options = None, required = Some True, routing = None,
            typeOptions = None, displayOptions = None\<rparr>,
          \<lparr>displayName = Some (startCase (JStr ''session'')), name = Some ''session'',
            type = Some N_string, default = Some (Value (JStr '''')), description = None,
            options = None, required = Some True,
            routing = Some (qs_routing ''session'' value_expr),
            typeOptions = None, displayOptions = None\<rparr>]"
  by (simp add: compiler_defs input_defs)

lemma duplicate_session_fields:
  "fromParameters (new_N8NINodeProperties empty_document)
       (op_parameters duplicate_session_operation) =
     Inr [\<lparr>displayName = Some (startCase (JStr ''session'')), name = Some ''session'',
            type = Some N_string, default = Some (Value (JStr '''')), description = None,
            options = None, required = None,
            routing = Some (qs_routing ''session'' value_expr),
            typeOptions = None, displayOptions = None\<rparr>]"
  "fromRequestBody (new_N8NINodeProperties empty_document)
       (op_requestBody duplicate_session_operation) =
     Inr [body_field ''session'' N_string (JStr '''') False value_expr]"
  by (simp_all add: compiler_defs input_defs)

lemma index_named_fields:
  "fromParameters (new_N8NINodeProperties empty_document)
       (op_parameters index_named_operation) = Inr []"
  "fromRequestBody (new_N8NINodeProperties empty_document)
       (op_requestBody index_named_operation) =
     Inr [body_field ''1'' N_string (JStr '''') False value_expr,
          body_field ''name'' N_string (JStr '''') False value_expr]"
  by (simp_all add: compiler_defs input_defs property_order_def array_index_def
      decimal_value_def digit_value_def)

lemma scenario_hypotheses:
  "resolve (requestBodies (refResolver this)) (Obj (json_body ''application/json'' s))
     = Inr (json_body ''application/json'' s)"
  "map_of (content (json_body ''application/json'' s)) ''multipart/form-data'' = None"
  "findKey (content (json_body ''application/json'' s)) regexp_test = Some \<lparr>media_schema = Obj s\<rparr>"
  "resolve (schemas (refResolver this)) (media_schema \<lparr>media_schema = Obj s\<rparr>) = Inr s"
  by (simp_all add: resolve_def json_body_def findKey_def)

subsection \<open>fromSchema\<close>

lemma fromSchema_resolved:
  assumes "resolve (schemas (refResolver this)) sch = Inr s"
  shows "fromSchema this sch = fromSchema this (Obj s)"
  using assms by (simp add: fromSchema_def resolve_Obj)

lemma fromSchema_shape:
  assumes "fromSchema this sch = Inr k"
  shows "displayName k = None \<and> name k = None \<and> required k = None \<and> routing k = None
    \<and> typeOptions k = None \<and> displayOptions k = None"
  using assms
  by (auto simp: fromSchema_def empty_properties_def Let_def
      split: sum.splits prod.splits option.splits list.splits)

lemma fromSchema_no_enum:
  assumes "resolve (schemas (refResolver this)) sch = Inr s"
    and "s_enum s = None \<or> s_enum s = Some []"
  shows "\<exists>f. fromSchema this sch = Inr f
     \<and> type f = Some (fst (type_and_default (s_type s) (schemaExample this s)))
     \<and> default f = Some (snd (type_and_default (s_type s) (schemaExample this s)))
     \<and> description f = s_description s \<and> options f = None"
  using assms
  by (auto simp: fromSchema_def empty_properties_def Let_def split: prod.splits)

lemma enum_options_values:
  "length (enum_options vs) = length vs"
  "map option_value (enum_options vs) = vs"
  "map option_name (enum_options vs) = map startCase vs"
  by (simp_all add: enum_options_def comp_def)

text \<open>
  An enumerated schema: the options are the enumerated values, in order, each with its
  label; the default is replaced by the first value only when the default computed so
  far is falsy.
\<close>

lemma fromSchema_enum:
  assumes "resolve (schemas (refResolver this)) sch = Inr s"
    and "s_enum s = Some (v # vs)"
  shows "\<exists>f. fromSchema this sch = Inr f
     \<and> type f = Some N_options
     \<and> options f = Some (enum_options (v # vs))
     \<and> description f = s_description s
     \<and> default f =
         (if truthy (Some (snd (type_and_default (s_type s) (schemaExample this s))))
          then Some (snd (type_and_default (s_type s) (schemaExample this s)))
          else Some (Value v))"
  using assms
  by (auto simp: fromSchema_def empty_properties_def Let_def split: prod.splits)

text \<open>
  Claim C1. For every schema whose resolved type is boolean, string, absent, object,
  array, number or integer and for which the example extractor yields no example,
  \<^verbatim>\<open>fromSchema\<close> returns a field whose type and default follow the type-mapping
  table: boolean gives \<^verbatim>\<open>boolean\<close> and \<^verbatim>\<open>true\<close>; string or no type gives
  \<^verbatim>\<open>string\<close> and \<^verbatim>\<open>""\<close>; object gives \<^verbatim>\<open>json\<close> and \<^verbatim>\<open>"{}"\<close>; array gives
  \<^verbatim>\<open>json\<close> and \<^verbatim>\<open>"[]"\<close>; number or integer gives \<^verbatim>\<open>number\<close> and \<^verbatim>\<open>0\<close>.
  These are the rows of the table for a schema without enumerated values: in the
  specification a schema with a non-empty \<^verbatim>\<open>enum\<close> is of the kind enumerated (section
  9) and has the last row of the table, which is the subject of claim C2. The statement
  holds for every instance, whatever its registry and its example extractor are.
\<close>

theorem fromSchema_type_mapping:
  assumes "resolve (schemas (refResolver this)) sch = Inr s"
    and "schemaExample this s = None"
    and "s_enum s = None \<or> s_enum s = Some []"
  shows "\<exists>f. fromSchema this sch = Inr f
     \<and> (s_type s = Some T_boolean \<longrightarrow>
          type f = Some N_boolean \<and> default f = Some (Value (JBool True)))
     \<and> (s_type s = Some T_string \<or> s_type s = None \<longrightarrow>
          type f = Some N_string \<and> default f = Some (Value (JStr '''')))
     \<and> (s_type s = Some T_object \<longrightarrow>
          type f = Some N_json \<and> default f = Some (Value (JStr ''{}'')))
     \<and> (s_type s = Some T_array \<longrightarrow>
          type f = Some N_json \<and> default f = Some (Value (JStr ''[]'')))
     \<and> (s_type s = Some T_number \<or> s_type s = Some T_integer \<longrightarrow>
          type f = Some N_number \<and> default f = Some (Value (JNum 0)))"
proof -
  from fromSchema_no_enum [OF assms(1) assms(3)] obtain f where
    f: "fromSchema this sch = Inr f"
      "type f = Some (fst (type_and_default (s_type s) None))"
      "default f = Some (snd (type_and_default (s_type s) None))"
    by (auto simp: assms(2))
  show ?thesis
    by (rule exI [of _ f]) (auto simp: f)
qed

text \<open>The seven kinds, each on a schema that has only its type.\<close>

theorem fromSchema_type_mapping_witness:
  "(\<exists>f. fromSchema (new_N8NINodeProperties empty_document) (Obj (typed_schema (Some T_boolean))) = Inr f
      \<and> type f = Some N_boolean \<and> default f = Some (Value (JBool True)))
   \<and> (\<exists>f. fromSchema (new_N8NINodeProperties empty_document) (Obj (typed_schema (Some T_string))) = Inr f
      \<and> type f = Some N_string \<and> default f = Some (Value (JStr '''')))
   \<and> (\<exists>f. fromSchema (new_N8NINodeProperties empty_document) (Obj (typed_schema None)) = Inr f
      \<and> type f = Some N_string \<and> default f = Some (Value (JStr '''')))
   \<and> (\<exists>f. fromSchema (new_N8NINodeProperties empty_document) (Obj (typed_schema (Some T_object))) = Inr f
      \<and> type f = Some N_json \<and> default f = Some (Value (JStr ''{}'')))
   \<and> (\<exists>f. fromSchema (new_N8NINodeProperties empty_document) (Obj (typed_schema (Some T_array))) = Inr f
      \<and> type f = Some N_json \<and> default f = Some (Value (JStr ''[]'')))
   \<and> (\<exists>f. fromSchema (new_N8NINodeProperties empty_document) (Obj (typed_schema (Some T_number))) = Inr f
      \<and> type f = Some N_number \<and> default f = Some (Value (JNum 0)))
   \<and> (\<exists>f. fromSchema (new_N8NINodeProperties empty_document) (Obj (typed_schema (Some T_integer))) = Inr f
      \<and> type f = Some N_number \<and> default f = Some (Value (JNum 0)))"
proof -
  have w: "\<exists>f. fromSchema (new_N8NINodeProperties empty_document) (Obj (typed_schema t)) = Inr f
     \<and> (t = Some T_boolean \<longrightarrow>
          type f = Some N_boolean \<and> default f = Some (Value (JBool True)))
     \<and> (t = Some T_string \<or> t = None \<longrightarrow>
          type f = Some N_string \<and> default f = Some (Value (JStr '''')))
     \<and> (t = Some T_object \<longrightarrow>
          type f = Some N_json \<and> default f = Some (Value (JStr ''{}'')))
     \<and> (t = Some T_array \<longrightarrow>
          type f = Some N_json \<and> default f = Some (Value (JStr ''[]'')))
     \<and> (t = Some T_number \<or> t = Some T_integer \<longrightarrow>
          type f = Some N_number \<and> default f = Some (Value (JNum 0)))" for t
    using fromSchema_type_mapping
      [of "new_N8NINodeProperties empty_document" "Obj (typed_schema t)" "typed_schema t"]
    by (simp add: resolve_def new_N8NINodeProperties_def typed_schema_def)
  show ?thesis
    using w [of "Some T_boolean"] w [of "Some T_string"] w [of None] w [of "Some T_object"]
      w [of "Some T_array"] w [of "Some T_number"] w [of "Some T_integer"]
    by simp
qed

text \<open>
  Without example, an enumerated schema of type boolean, object or array keeps the
  default of its type, which is truthy.
\<close>

lemma fromSchema_enum_kept_default:
  assumes "resolve (schemas (refResolver this)) sch = Inr s"
    and "s_enum s = Some (v # vs)"
    and "schemaExample this s = None"
  shows "\<exists>f. fromSchema this sch = Inr f
     \<and> (s_type s = Some T_boolean \<longrightarrow> default f = Some (Value (JBool True)))
     \<and> (s_type s = Some T_object \<longrightarrow> default f = Some (Value (JStr ''{}'')))
     \<and> (s_type s = Some T_array \<longrightarrow> default f = Some (Value (JStr ''[]'')))"
  using fromSchema_enum [OF assms(1) assms(2)] by (auto simp: assms(3))

text \<open>
  Claim C2, as amended. For a schema with a non-empty \<^verbatim>\<open>enum\<close>, \<^verbatim>\<open>fromSchema\<close>
  returns an \<^verbatim>\<open>options\<close> field with one option per enumerated value, in the order
  and number of the source; the label of an option is \<^verbatim>\<open>startCase\<close> of the raw value
  and its value is the raw value; and when there is no example and the type is string,
  absent, number or integer, the default is the first enumerated value.
\<close>

theorem fromSchema_enum_options:
  assumes "resolve (schemas (refResolver this)) sch = Inr s"
    and "s_enum s = Some (v # vs)"
  shows "\<exists>f opts. fromSchema this sch = Inr f
     \<and> type f = Some N_options \<and> options f = Some opts
     \<and> length opts = length (v # vs)
     \<and> map option_value opts = v # vs
     \<and> map option_name opts = map startCase (v # vs)
     \<and> (schemaExample this s = None
          \<and> (s_type s = Some T_string \<or> s_type s = None
               \<or> s_type s = Some T_number \<or> s_type s = Some T_integer) \<longrightarrow>
          default f = Some (Value v))"
proof -
  from fromSchema_enum [OF assms] obtain f where
    f: "fromSchema this sch = Inr f" "type f = Some N_options"
      "options f = Some (enum_options (v # vs))"
    and d: "default f =
         (if truthy (Some (snd (type_and_default (s_type s) (schemaExample this s))))
          then Some (snd (type_and_default (s_type s) (schemaExample this s)))
          else Some (Value v))"
    by blast
  have 1: "default f = Some (Value v)"
    if "schemaExample this s = None
          \<and> (s_type s = Some T_string \<or> s_type s = None
               \<or> s_type s = Some T_number \<or> s_type s = Some T_integer)"
    using that d by auto
  show ?thesis
  proof (rule exI [of _ f], rule exI [of _ "enum_options (v # vs)"], intro conjI impI)
    show "length (enum_options (v # vs)) = length (v # vs)"
      by (rule enum_options_values)
    show "map option_value (enum_options (v # vs)) = v # vs"
      by (rule enum_options_values)
    show "map option_name (enum_options (v # vs)) = map startCase (v # vs)"
      by (rule enum_options_values)
  qed (fact f 1)+
qed

text \<open>The schema \<^verbatim>\<open>{type: 'string', enum: ['asc', 'desc']}\<close>.\<close>

theorem fromSchema_enum_options_witness:
  "\<exists>f opts. fromSchema (new_N8NINodeProperties empty_document) (Obj string_enum_schema) = Inr f
     \<and> type f = Some N_options \<and> options f = Some opts
     \<and> map option_value opts = [JStr ''asc'', JStr ''desc'']
     \<and> map option_name opts = [startCase (JStr ''asc''), startCase (JStr ''desc'')]
     \<and> default f = Some (Value (JStr ''asc''))"
proof -
  have r: "resolve (schemas (refResolver (new_N8NINodeProperties empty_document)))
      (Obj string_enum_schema) = Inr string_enum_schema"
    by (rule resolve_Obj)
  have e: "s_enum string_enum_schema = Some (JStr ''asc'' # [JStr ''desc''])"
    by (simp add: string_enum_schema_def)
  from fromSchema_enum_options [OF r e] obtain f opts where
    1: "fromSchema (new_N8NINodeProperties empty_document) (Obj string_enum_schema) = Inr f"
    and 2: "type f = Some N_options" and 3: "options f = Some opts"
    and 4: "map option_value opts = [JStr ''asc'', JStr ''desc'']"
    and 5: "map option_name opts = map startCase [JStr ''asc'', JStr ''desc'']"
    and 6: "schemaExample (new_N8NINodeProperties empty_document) string_enum_schema = None
          \<and> (s_type string_enum_schema = Some T_string \<or> s_type string_enum_schema = None
               \<or> s_type string_enum_schema = Some T_number
               \<or> s_type string_enum_schema = Some T_integer) \<longrightarrow>
          default f = Some (Value (JStr ''asc''))"
    by (elim exE conjE) (rule that, assumption+)
  from 5 have 7: "map option_name opts = [startCase (JStr ''asc''), startCase (JStr ''desc'')]"
    by simp
  from 6 have 8: "default f = Some (Value (JStr ''asc''))"
    by (simp add: string_enum_schema_def new_N8NINodeProperties_def)
  show ?thesis
    by (rule exI [of _ f], rule exI [of _ opts], intro conjI) (fact 1 2 3 4 7 8)+
qed

text \<open>
  The claim as written gives the first enumerated value as default for every kind. On
  \<^verbatim>\<open>{type: 'boolean', enum: [false, true]}\<close>, without any example, the default is not
  \<^verbatim>\<open>false\<close>: line 84 keeps \<^verbatim>\<open>field.default\<close> when it is truthy, and by then it
  holds the default of the type, \<^verbatim>\<open>true\<close>.
\<close>

theorem fromSchema_boolean_enum_counterexample:
  "\<not> (\<exists>f. fromSchema (new_N8NINodeProperties empty_document) (Obj boolean_enum_schema) = Inr f
        \<and> default f = Some (Value (JBool False)))"
  by (simp add: compiler_defs input_defs)

subsection \<open>fromParameter\<close>

lemma fromParameter_fields:
  assumes "resolve (parameters (refResolver this)) prm = Inr p"
    and "fromSchema this (param_schema p) = Inr k"
    and "param_in p = ''query'' \<or> param_in p = ''path'' \<or> param_in p = ''header''"
  shows "\<exists>f. fromParameter this prm = Inr f
     \<and> displayName f = Some (startCase (JStr (param_name p)))
     \<and> name f = Some (param_name p)
     \<and> type f = type k
     \<and> options f = options k
     \<and> description f = (case param_description p of Some d \<Rightarrow> Some d | None \<Rightarrow> description k)
     \<and> default f = (case param_example p of Some e \<Rightarrow> Some (Value e) | None \<Rightarrow> default k)
     \<and> required f =
         (if param_in p = ''path'' \<or> param_required p = Some True then Some True else None)
     \<and> routing f =
         (if param_in p = ''query'' then Some (qs_routing (param_name p) value_expr)
          else if param_in p = ''header'' then Some (headers_routing (param_name p) value_expr)
          else None)"
proof -
  define a where "a = empty_properties
      \<lparr>displayName := Some (startCase (JStr (param_name p))),
       name := Some (param_name p),
       required := param_required p,
       description := param_description p,
       default := map_option Value (param_example p)\<rparr>"
  have a: "displayName a = Some (startCase (JStr (param_name p)))" "name a = Some (param_name p)"
    "required a = param_required p" "description a = param_description p"
    "default a = map_option Value (param_example p)" "type a = None" "options a = None"
    "routing a = None"
    by (simp_all add: a_def empty_properties_def)
  have k: "required k = None" "routing k = None"
    using fromSchema_shape [OF assms(2)] by simp_all
  have c: "displayName (combine [a, k]) = Some (startCase (JStr (param_name p)))"
    "name (combine [a, k]) = Some (param_name p)"
    "type (combine [a, k]) = type k"
    "options (combine [a, k]) = options k"
    "description (combine [a, k]) =
       (case param_description p of Some d \<Rightarrow> Some d | None \<Rightarrow> description k)"
    "default (combine [a, k]) =
       (case param_example p of Some e \<Rightarrow> Some (Value e) | None \<Rightarrow> default k)"
    "required (combine [a, k]) = (if param_required p = Some True then Some True else None)"
    "routing (combine [a, k]) = None"
    by (simp_all add: combine_pair a k split: option.splits)
  have "fromParameter this prm =
      (if param_in p = ''query'' then
         Inr (delete_falsy_required
           ((combine [a, k])\<lparr>routing := Some (qs_routing (param_name p) value_expr)\<rparr>))
       else if param_in p = ''path'' then
         Inr (delete_falsy_required ((combine [a, k])\<lparr>required := Some True\<rparr>))
       else if param_in p = ''header'' then
         Inr (delete_falsy_required
           ((combine [a, k])\<lparr>routing := Some (headers_routing (param_name p) value_expr)\<rparr>))
       else Inl (UnsupportedParameterLocation (param_in p)))"
    by (simp add: fromParameter_def assms(1) assms(2) a_def Let_def)
  with assms(3) show ?thesis
    by (auto simp: delete_falsy_required_fields c)
qed

text \<open>
  Claim C3, as amended. \<^verbatim>\<open>fromParameter\<close> resolves the parameter and compiles its
  schema; the display name, name, required flag, description and default of the parameter
  are laid over the keys of the schema, so that the description and the default of the
  schema apply only where the parameter supplies none. The routing follows the location:
  \<^verbatim>\<open>query\<close> routes the verbatim value to the query string under the parameter's name,
  \<^verbatim>\<open>header\<close> routes it to the header of that name, and \<^verbatim>\<open>path\<close> attaches no
  routing to the field and only forces \<^verbatim>\<open>required\<close>. Every other location fails with
  \<open>UnsupportedParameterLocation\<close>.
\<close>

theorem fromParameter_overlay_and_routing:
  assumes "resolve (parameters (refResolver this)) prm = Inr p"
    and "fromSchema this (param_schema p) = Inr k"
  shows "(param_in p = ''query'' \<or> param_in p = ''path'' \<or> param_in p = ''header'' \<longrightarrow>
      (\<exists>f. fromParameter this prm = Inr f
        \<and> displayName f = Some (startCase (JStr (param_name p)))
        \<and> name f = Some (param_name p)
        \<and> type f = type k
        \<and> options f = options k
        \<and> description f =
            (case param_description p of Some d \<Rightarrow> Some d | None \<Rightarrow> description k)
        \<and> default f =
            (case param_example p of Some e \<Rightarrow> Some (Value e) | None \<Rightarrow> default k)
        \<and> required f =
            (if param_in p = ''path'' \<or> param_required p = Some True then Some True else None)
        \<and> routing f =
            (if param_in p = ''query'' then Some (qs_routing (param_name p) value_expr)
             else if param_in p = ''header'' then
               Some (headers_routing (param_name p) value_expr)
             else None)))
   \<and> (param_in p \<noteq> ''query'' \<and> param_in p \<noteq> ''path'' \<and> param_in p \<noteq> ''header'' \<longrightarrow>
      fromParameter this prm = Inl (UnsupportedParameterLocation (param_in p)))"
proof (intro conjI impI)
  assume "param_in p = ''query'' \<or> param_in p = ''path'' \<or> param_in p = ''header''"
  from fromParameter_fields [OF assms this]
  show "\<exists>f. fromParameter this prm = Inr f
        \<and> displayName f = Some (startCase (JStr (param_name p)))
        \<and> name f = Some (param_name p)
        \<and> type f = type k
        \<and> options f = options k
        \<and> description f =
            (case param_description p of Some d \<Rightarrow> Some d | None \<Rightarrow> description k)
        \<and> default f =
            (case param_example p of Some e \<Rightarrow> Some (Value e) | None \<Rightarrow> default k)
        \<and> required f =
            (if param_in p = ''path'' \<or> param_required p = Some True then Some True else None)
        \<and> routing f =
            (if param_in p = ''query'' then Some (qs_routing (param_name p) value_expr)
             else if param_in p = ''header'' then
               Some (headers_routing (param_name p) value_expr)
             else None)" .
next
  assume "param_in p \<noteq> ''query'' \<and> param_in p \<noteq> ''path'' \<and> param_in p \<noteq> ''header''"
  then show "fromParameter this prm = Inl (UnsupportedParameterLocation (param_in p))"
    by (simp add: fromParameter_def assms Let_def)
qed

text \<open>One parameter for each of the three locations, and one in a cookie.\<close>

theorem fromParameter_overlay_and_routing_witness:
  "(\<exists>f. fromParameter (new_N8NINodeProperties empty_document)
           (Obj (string_parameter ''limit'' ''query'' (Some False))) = Inr f
      \<and> name f = Some ''limit'' \<and> type f = Some N_string \<and> required f = None
      \<and> routing f = Some (qs_routing ''limit'' value_expr))
   \<and> (\<exists>f. fromParameter (new_N8NINodeProperties empty_document)
           (Obj (string_parameter ''X-Token'' ''header'' (Some True))) = Inr f
      \<and> name f = Some ''X-Token'' \<and> required f = Some True
      \<and> routing f = Some (headers_routing ''X-Token'' value_expr))
   \<and> (\<exists>f. fromParameter (new_N8NINodeProperties empty_document)
           (Obj (string_parameter ''id'' ''path'' None)) = Inr f
      \<and> name f = Some ''id'' \<and> required f = Some True \<and> routing f = None)
   \<and> fromParameter (new_N8NINodeProperties empty_document)
        (Obj (string_parameter ''sid'' ''cookie'' None))
      = Inl (UnsupportedParameterLocation ''cookie'')"
proof -
  obtain k where k: "fromSchema (new_N8NINodeProperties empty_document)
      (Obj (typed_schema (Some T_string))) = Inr k" "type k = Some N_string"
    using fromSchema_no_enum [of "new_N8NINodeProperties empty_document"
        "Obj (typed_schema (Some T_string))" "typed_schema (Some T_string)"]
    by (auto simp: resolve_def typed_schema_def)
  have r: "resolve (parameters (refResolver (new_N8NINodeProperties empty_document)))
      (Obj (string_parameter nm loc req)) = Inr (string_parameter nm loc req)" for nm loc req
    by (simp add: resolve_def)
  have s: "fromSchema (new_N8NINodeProperties empty_document)
      (param_schema (string_parameter nm loc req)) = Inr k" for nm loc req
    by (simp add: string_parameter_def k)
  note w = fromParameter_overlay_and_routing [OF r s]
  have 1: "\<exists>f. fromParameter (new_N8NINodeProperties empty_document)
           (Obj (string_parameter ''limit'' ''query'' (Some False))) = Inr f
      \<and> name f = Some ''limit'' \<and> type f = Some N_string \<and> required f = None
      \<and> routing f = Some (qs_routing ''limit'' value_expr)"
    using w [of "''limit''" "''query''" "Some False"] by (simp add: string_parameter_def k(2)) blast
  have 2: "\<exists>f. fromParameter (new_N8NINodeProperties empty_document)
           (Obj (string_parameter ''X-Token'' ''header'' (Some True))) = Inr f
      \<and> name f = Some ''X-Token'' \<and> required f = Some True
      \<and> routing f = Some (headers_routing ''X-Token'' value_expr)"
    using w [of "''X-Token''" "''header''" "Some True"] by (simp add: string_parameter_def) blast
  have 3: "\<exists>f. fromParameter (new_N8NINodeProperties empty_document)
           (Obj (string_parameter ''id'' ''path'' None)) = Inr f
      \<and> name f = Some ''id'' \<and> required f = Some True \<and> routing f = None"
    using w [of "''id''" "''path''" None] by (simp add: string_parameter_def) blast
  have 4: "fromParameter (new_N8NINodeProperties empty_document)
        (Obj (string_parameter ''sid'' ''cookie'' None))
      = Inl (UnsupportedParameterLocation ''cookie'')"
    using w [of "''sid''" "''cookie''" None] by (simp add: string_parameter_def)
  from 1 2 3 4 show ?thesis by (intro conjI)
qed

text \<open>
  The claim as written attaches a routing directive for every supported location, path
  substitution for \<^verbatim>\<open>path\<close>. The case \<^verbatim>\<open>"path"\<close> of the switch (lines 116 to 118)
  sets \<^verbatim>\<open>required\<close> and nothing else: the field of a path parameter has no routing.
\<close>

theorem fromParameter_path_routing_counterexample:
  "\<exists>f. fromParameter (new_N8NINodeProperties empty_document)
          (Obj (string_parameter ''id'' ''path'' None)) = Inr f
     \<and> routing f = None"
  by (simp add: compiler_defs input_defs)

text \<open>
  Claim C4. For every parameter whose location is \<^verbatim>\<open>path\<close>, the field returned by
  \<^verbatim>\<open>fromParameter\<close> has \<^verbatim>\<open>required: true\<close>, whatever the document declares.
\<close>

theorem fromParameter_path_required:
  assumes "resolve (parameters (refResolver this)) prm = Inr p"
    and "param_in p = ''path''"
    and "fromSchema this (param_schema p) = Inr k"
  shows "\<exists>f. fromParameter this prm = Inr f \<and> required f = Some True"
  using fromParameter_fields [OF assms(1) assms(3)] assms(2) by auto

text \<open>A path parameter that the document declares as not required.\<close>

theorem fromParameter_path_required_witness:
  "\<exists>f. fromParameter (new_N8NINodeProperties empty_document)
          (Obj (string_parameter ''id'' ''path'' (Some False))) = Inr f
     \<and> required f = Some True"
proof -
  obtain k where k: "fromSchema (new_N8NINodeProperties empty_document)
      (Obj (typed_schema (Some T_string))) = Inr k"
    using fromSchema_no_enum [of "new_N8NINodeProperties empty_document"
        "Obj (typed_schema (Some T_string))" "typed_schema (Some T_string)"]
    by (auto simp: resolve_def typed_schema_def)
  show ?thesis
    using fromParameter_path_required [of "new_N8NINodeProperties empty_document"
        "Obj (string_parameter ''id'' ''path'' (Some False))"
        "string_parameter ''id'' ''path'' (Some False)" k]
    by (simp add: resolve_def string_parameter_def k)
qed

subsection \<open>fromRequestBody: the choice of the content\<close>

lemma fromRequestBody_multipart:
  assumes "resolve (requestBodies (refResolver this)) b = Inr rb"
    and "map_of (content rb) ''multipart/form-data'' = Some mc"
  shows "fromRequestBody this (Some b) = fromMultipartFormData this mc"
  using assms by (simp add: fromRequestBody_def)


lemma fromRequestBody_json:
  assumes "resolve (requestBodies (refResolver this)) b = Inr rb"
    and "map_of (content rb) ''multipart/form-data'' = None"
    and "findKey (content rb) regexp_test = Some cnt"
    and "resolve (schemas (refResolver this)) (media_schema cnt) = Inr s"
  shows "fromRequestBody this (Some b) =
     (if s_properties s = None \<and> s_type s \<noteq> Some T_object \<and> s_type s \<noteq> Some T_array
      then Inl (UnsupportedBodySchema (s_type s))
      else
        (case array_body_fields this s of
           Inl e \<Rightarrow> Inl e
         | Inr fields1 \<Rightarrow>
             (case for_each (json_property_field this s)
                     (case s_properties s of None \<Rightarrow> [] | Some ps \<Rightarrow> ps) of
                Inl e \<Rightarrow> Inl e
              | Inr fields2 \<Rightarrow> Inr (fields1 @ fields2))))"
  using assms by (simp add: fromRequestBody_def)




subsection \<open>fromRequestBody: the JSON branch\<close>

lemma fromSchemaProperty_fields:
  assumes "fromSchemaProperty this nm p = Inr g"
  shows "\<exists>k. fromSchema this p = Inr k
     \<and> displayName g = Some (startCase (JStr nm)) \<and> name g = Some nm
     \<and> type g = type k \<and> default g = default k \<and> description g = description k
     \<and> options g = options k \<and> required g = None \<and> routing g = None
     \<and> typeOptions g = None \<and> displayOptions g = None"
proof (cases "fromSchema this p")
  case (Inl e)
  with assms show ?thesis
    by (simp add: fromSchemaProperty_def)
next
  case (Inr k)
  with assms have g: "g = combine
      [empty_properties\<lparr>displayName := Some (startCase (JStr nm)), name := Some nm\<rparr>, k]"
    by (simp add: fromSchemaProperty_def)
  show ?thesis
    using fromSchema_shape [OF Inr]
    by (simp add: Inr g combine_pair empty_properties_def)
qed

lemma json_property_field_fields:
  assumes "json_property_field this s (key, p) = Inr f"
  shows "\<exists>k. fromSchema this p = Inr k
     \<and> displayName f = Some (startCase (JStr key)) \<and> name f = Some key
     \<and> type f = type k \<and> default f = default k \<and> description f = description k
     \<and> options f = options k
     \<and> required f =
         (if key \<in> set (case s_required s of None \<Rightarrow> [] | Some r \<Rightarrow> r) then Some True else None)
     \<and> routing f =
         Some (body_routing
           (Keyed [(key, if type f = Some N_json then json_parse_expr else value_expr)]))"
proof (cases "fromSchemaProperty this key p")
  case (Inl e)
  with assms show ?thesis
    by (simp add: json_property_field_def)
next
  case (Inr g)
  from fromSchemaProperty_fields [OF Inr] obtain k where k: "fromSchema this p = Inr k"
    "displayName g = Some (startCase (JStr key))" "name g = Some key"
    "type g = type k" "default g = default k" "description g = description k"
    "options g = options k" "required g = None"
    by blast
  define c where "c = combine
      [empty_properties\<lparr>required := map_option (\<lambda>r. key \<in> set r) (s_required s)\<rparr>, g]"
  have c: "displayName c = Some (startCase (JStr key))" "name c = Some key"
    "type c = type k" "default c = default k" "description c = description k"
    "options c = options k"
    "required c =
       (if key \<in> set (case s_required s of None \<Rightarrow> [] | Some r \<Rightarrow> r) then Some True else None)"
    by (simp_all add: c_def combine_pair empty_properties_def k split: option.splits)
  have "f = c\<lparr>routing := Some (body_routing
      (Keyed [(key, if type c = Some N_json then json_parse_expr else value_expr)]))\<rparr>"
    using assms by (simp add: json_property_field_def Inr c_def Let_def split: if_splits)
  then show ?thesis
    by (simp add: k(1) c)
qed

lemma array_body_fields_none:
  assumes "s_type s \<noteq> Some T_array \<or> s_items s = None"
  shows "array_body_fields this s = Inr []"
  using assms
  by (auto simp: array_body_fields_def split: option.splits schema_type.splits)

lemma array_body_fields_array:
  assumes "s_type s = Some T_array"
    and "s_items s = Some its"
    and "array_body_fields this s = Inr pre"
  shows "\<exists>f k. pre = [f] \<and> fromSchema this its = Inr k
     \<and> displayName f = Some (startCase (JStr ''body'')) \<and> name f = Some ''body''
     \<and> type f = type k \<and> default f = default k \<and> description f = description k
     \<and> options f = options k
     \<and> required f = (if s_required s \<noteq> None then Some True else None)
     \<and> routing f = Some (body_routing (Whole json_parse_expr))"
proof (cases "resolve (schemas (refResolver this)) its")
  case (Inl e)
  with assms show ?thesis
    by (simp add: array_body_fields_def)
next
  case inner: (Inr innerSchema)
  show ?thesis
  proof (cases "fromSchemaProperty this ''body'' (Obj innerSchema)")
    case (Inl e)
    with assms inner show ?thesis
      by (simp add: array_body_fields_def)
  next
    case (Inr g)
    from fromSchemaProperty_fields [OF Inr] obtain k where
      k: "fromSchema this (Obj innerSchema) = Inr k"
      "displayName g = Some (startCase (JStr ''body''))" "name g = Some ''body''"
      "type g = type k" "default g = default k" "description g = description k"
      "options g = options k" "required g = None"
      by blast
    have k': "fromSchema this its = Inr k"
      using fromSchema_resolved [OF inner] k(1) by simp
    define c where "c = combine [empty_properties\<lparr>required := Some (s_required s \<noteq> None)\<rparr>, g]"
    have c: "displayName c = Some (startCase (JStr ''body''))" "name c = Some ''body''"
      "type c = type k" "default c = default k" "description c = description k"
      "options c = options k"
      "required c = (if s_required s \<noteq> None then Some True else None)"
      by (simp_all add: c_def combine_pair empty_properties_def k)
    have "pre = [c\<lparr>routing := Some (body_routing (Whole json_parse_expr))\<rparr>]"
      using assms by (simp add: array_body_fields_def inner Inr c_def Let_def)
    then show ?thesis
      by (simp add: k' c)
  qed
qed

lemma fromRequestBody_json_fields:
  assumes "resolve (requestBodies (refResolver this)) b = Inr rb"
    and "map_of (content rb) ''multipart/form-data'' = None"
    and "findKey (content rb) regexp_test = Some cnt"
    and "resolve (schemas (refResolver this)) (media_schema cnt) = Inr s"
    and "fromRequestBody this (Some b) = Inr flds"
  shows "\<exists>pre fs. flds = pre @ fs \<and> array_body_fields this s = Inr pre
     \<and> list_all2 (\<lambda>kp f. json_property_field this s kp = Inr f)
         (case s_properties s of None \<Rightarrow> [] | Some ps \<Rightarrow> ps) fs"
  using assms(5) unfolding fromRequestBody_json [OF assms(1-4)]
  by (auto simp: for_each_Inr_iff split: if_splits sum.splits)

text \<open>
  Claim C6. When the selected JSON schema has type object or declares properties,
  \<^verbatim>\<open>fromRequestBody\<close> returns one field per declared property, in the order of the
  properties: the field has the type, default, options and description that
  \<^verbatim>\<open>fromSchema\<close> gives for the property, its required flag is \<^verbatim>\<open>true\<close> exactly
  when the name of the property is in the \<^verbatim>\<open>required\<close> list of the schema, and its
  routing writes the body under the name of the property, with
  \<^verbatim>\<open>JSON.parse($value)\<close> when the type of the field is \<^verbatim>\<open>json\<close> and with the
  verbatim value otherwise. Nothing precedes these fields unless the schema is an array
  with items.
\<close>

theorem fromRequestBody_object_properties:
  assumes "resolve (requestBodies (refResolver this)) b = Inr rb"
    and "map_of (content rb) ''multipart/form-data'' = None"
    and "findKey (content rb) regexp_test = Some cnt"
    and "resolve (schemas (refResolver this)) (media_schema cnt) = Inr s"
    and "s_type s = Some T_object \<or> s_properties s \<noteq> None"
    and "fromRequestBody this (Some b) = Inr flds"
  shows "\<exists>pre fs. flds = pre @ fs
     \<and> (s_type s \<noteq> Some T_array \<or> s_items s = None \<longrightarrow> pre = [])
     \<and> list_all2
         (\<lambda>(key, p) f. \<exists>k. fromSchema this p = Inr k
            \<and> displayName f = Some (startCase (JStr key)) \<and> name f = Some key
            \<and> type f = type k \<and> default f = default k \<and> description f = description k
            \<and> options f = options k
            \<and> required f =
                (if key \<in> set (case s_required s of None \<Rightarrow> [] | Some r \<Rightarrow> r) then Some True
                 else None)
            \<and> routing f =
                Some (body_routing
                  (Keyed [(key, if type f = Some N_json then json_parse_expr else value_expr)])))
         (case s_properties s of None \<Rightarrow> [] | Some ps \<Rightarrow> ps) fs"
proof -
  from fromRequestBody_json_fields [OF assms(1-4) assms(6)] obtain pre fs where
    flds: "flds = pre @ fs" and pre: "array_body_fields this s = Inr pre"
    and fs: "list_all2 (\<lambda>kp f. json_property_field this s kp = Inr f)
         (case s_properties s of None \<Rightarrow> [] | Some ps \<Rightarrow> ps) fs"
    by blast
  have nil: "pre = []" if "s_type s \<noteq> Some T_array \<or> s_items s = None"
    using array_body_fields_none [OF that, of this] pre by simp
  have each: "list_all2
         (\<lambda>(key, p) f. \<exists>k. fromSchema this p = Inr k
            \<and> displayName f = Some (startCase (JStr key)) \<and> name f = Some key
            \<and> type f = type k \<and> default f = default k \<and> description f = description k
            \<and> options f = options k
            \<and> required f =
                (if key \<in> set (case s_required s of None \<Rightarrow> [] | Some r \<Rightarrow> r) then Some True
                 else None)
            \<and> routing f =
                Some (body_routing
                  (Keyed [(key, if type f = Some N_json then json_parse_expr else value_expr)])))
         (case s_properties s of None \<Rightarrow> [] | Some ps \<Rightarrow> ps) fs"
    using fs
  proof (rule list_all2_mono)
    fix kp f
    assume a: "json_property_field this s kp = Inr f"
    obtain key p where kp: "kp = (key, p)"
      by (cases kp)
    show "(case kp of (key, p) \<Rightarrow> \<lambda>f. \<exists>k. fromSchema this p = Inr k
            \<and> displayName f = Some (startCase (JStr key)) \<and> name f = Some key
            \<and> type f = type k \<and> default f = default k \<and> description f = description k
            \<and> options f = options k
            \<and> required f =
                (if key \<in> set (case s_required s of None \<Rightarrow> [] | Some r \<Rightarrow> r) then Some True
                 else None)
            \<and> routing f =
                Some (body_routing
                  (Keyed [(key, if type f = Some N_json then json_parse_expr else value_expr)]))) f"
      unfolding kp prod.case
      by (rule json_property_field_fields [OF a [unfolded kp]])
  qed
  show ?thesis
  proof (rule exI [of _ pre], rule exI [of _ fs], intro conjI impI)
    show "flds = pre @ fs"
      by (fact flds)
  next
    assume "s_type s \<noteq> Some T_array \<or> s_items s = None"
    then show "pre = []"
      by (rule nil)
  next
    show "list_all2
         (\<lambda>(key, p) f. \<exists>k. fromSchema this p = Inr k
            \<and> displayName f = Some (startCase (JStr key)) \<and> name f = Some key
            \<and> type f = type k \<and> default f = default k \<and> description f = description k
            \<and> options f = options k
            \<and> required f =
                (if key \<in> set (case s_required s of None \<Rightarrow> [] | Some r \<Rightarrow> r) then Some True
                 else None)
            \<and> routing f =
                Some (body_routing
                  (Keyed [(key, if type f = Some N_json then json_parse_expr else value_expr)])))
         (case s_properties s of None \<Rightarrow> [] | Some ps \<Rightarrow> ps) fs"
      by (fact each)
  qed
qed

text \<open>Scenario A: the properties name (required), active and meta.\<close>

theorem fromRequestBody_object_properties_witness:
  "\<exists>fs. fromRequestBody (new_N8NINodeProperties empty_document) (Some (Obj scenario_a_body))
       = Inr fs
     \<and> map name fs = [Some ''name'', Some ''active'', Some ''meta'']
     \<and> map type fs = [Some N_string, Some N_boolean, Some N_json]
     \<and> map required fs = [Some True, None, None]
     \<and> map routing fs =
         [Some (body_routing (Keyed [(''name'', value_expr)])),
          Some (body_routing (Keyed [(''active'', value_expr)])),
          Some (body_routing (Keyed [(''meta'', json_parse_expr)]))]"
proof -
  let ?s = "object_schema
        [(''name'', Obj (typed_schema (Some T_string))),
         (''active'', Obj (typed_schema (Some T_boolean))),
         (''meta'', Obj (typed_schema (Some T_object)))]
        (Some [''name''])"
  let ?out = "[body_field ''name'' N_string (JStr '''') True value_expr,
          body_field ''active'' N_boolean (JBool True) False value_expr,
          body_field ''meta'' N_json (JStr ''{}'') False json_parse_expr]"
  have b: "fromRequestBody (new_N8NINodeProperties empty_document)
      (Some (Obj (json_body ''application/json'' ?s))) = Inr ?out"
    using scenario_a_fields by (simp add: scenario_a_body_def)
  have t: "s_type ?s = Some T_object \<or> s_properties ?s \<noteq> None"
    by (simp add: object_schema_def)
  from fromRequestBody_object_properties [OF scenario_hypotheses t b]
  obtain pre fs where 1: "?out = pre @ fs"
    and 2: "s_type ?s \<noteq> Some T_array \<or> s_items ?s = None \<longrightarrow> pre = []"
    by (elim exE conjE) (rule that, assumption+)
  from 2 have "pre = []"
    by (simp add: object_schema_def)
  with 1 have fs: "fs = ?out"
    by simp
  then have m: "map name fs = [Some ''name'', Some ''active'', Some ''meta'']
     \<and> map type fs = [Some N_string, Some N_boolean, Some N_json]
     \<and> map required fs = [Some True, None, None]
     \<and> map routing fs =
         [Some (body_routing (Keyed [(''name'', value_expr)])),
          Some (body_routing (Keyed [(''active'', value_expr)])),
          Some (body_routing (Keyed [(''meta'', json_parse_expr)]))]"
    by (simp add: body_field_def)
  have r: "fromRequestBody (new_N8NINodeProperties empty_document)
      (Some (Obj scenario_a_body)) = Inr fs"
    using scenario_a_fields fs by simp
  show ?thesis
    by (rule exI [of _ fs], rule conjI, rule r, rule m)
qed

text \<open>
  Claim C7, as amended. When the selected JSON schema has type array and an
  \<^verbatim>\<open>items\<close> member, \<^verbatim>\<open>fromRequestBody\<close> returns first a field named \<^verbatim>\<open>body\<close>,
  the only field when the schema declares no properties. Its type, default, options and
  description are those that \<^verbatim>\<open>fromSchema\<close> gives for the item schema, so that an
  array of strings without example gives a \<^verbatim>\<open>string\<close> field with default \<^verbatim>\<open>""\<close>;
  its required flag is \<^verbatim>\<open>true\<close> exactly when the array schema has a \<^verbatim>\<open>required\<close>
  member; its routing sets the whole body to \<^verbatim>\<open>JSON.parse($value)\<close>.
\<close>

theorem fromRequestBody_array_items:
  assumes "resolve (requestBodies (refResolver this)) b = Inr rb"
    and "map_of (content rb) ''multipart/form-data'' = None"
    and "findKey (content rb) regexp_test = Some cnt"
    and "resolve (schemas (refResolver this)) (media_schema cnt) = Inr s"
    and "s_type s = Some T_array"
    and "s_items s = Some its"
    and "fromRequestBody this (Some b) = Inr flds"
  shows "\<exists>f rest k. flds = f # rest \<and> (s_properties s = None \<longrightarrow> rest = [])
     \<and> fromSchema this its = Inr k
     \<and> displayName f = Some (startCase (JStr ''body'')) \<and> name f = Some ''body''
     \<and> type f = type k \<and> default f = default k \<and> description f = description k
     \<and> options f = options k
     \<and> required f = (if s_required s \<noteq> None then Some True else None)
     \<and> routing f = Some (body_routing (Whole json_parse_expr))
     \<and> (\<forall>it. resolve (schemas (refResolver this)) its = Inr it \<and> s_type it = Some T_string
            \<and> schemaExample this it = None \<and> (s_enum it = None \<or> s_enum it = Some []) \<longrightarrow>
          type f = Some N_string \<and> default f = Some (Value (JStr '''')))"
proof -
  from fromRequestBody_json_fields [OF assms(1-4) assms(7)] obtain pre fs where
    flds: "flds = pre @ fs" and pre: "array_body_fields this s = Inr pre"
    and fs: "list_all2 (\<lambda>kp f. json_property_field this s kp = Inr f)
         (case s_properties s of None \<Rightarrow> [] | Some ps \<Rightarrow> ps) fs"
    by blast
  from array_body_fields_array [OF assms(5) assms(6) pre] obtain f k where
    f: "pre = [f]" "fromSchema this its = Inr k"
      "displayName f = Some (startCase (JStr ''body''))" "name f = Some ''body''"
      "type f = type k" "default f = default k" "description f = description k"
      "options f = options k"
      "required f = (if s_required s \<noteq> None then Some True else None)"
      "routing f = Some (body_routing (Whole json_parse_expr))"
    by blast
  have nil: "fs = []" if "s_properties s = None"
    using fs that by simp
  have str: "type f = Some N_string \<and> default f = Some (Value (JStr ''''))"
    if "resolve (schemas (refResolver this)) its = Inr it \<and> s_type it = Some T_string
      \<and> schemaExample this it = None \<and> (s_enum it = None \<or> s_enum it = Some [])" for it
  proof -
    from that have r: "resolve (schemas (refResolver this)) its = Inr it"
      and e: "s_enum it = None \<or> s_enum it = Some []"
      and t: "s_type it = Some T_string" and x: "schemaExample this it = None"
      by simp_all
    from fromSchema_no_enum [OF r e] f(2) have
      "type k = Some (fst (type_and_default (s_type it) (schemaExample this it)))"
      "default k = Some (snd (type_and_default (s_type it) (schemaExample this it)))"
      by auto
    then show ?thesis
      by (simp add: f(5) f(6) t x)
  qed
  have "flds = f # fs"
    by (simp add: flds f(1))
  moreover have "s_properties s = None \<longrightarrow> fs = []"
    using nil by simp
  moreover have "\<forall>it. resolve (schemas (refResolver this)) its = Inr it \<and> s_type it = Some T_string
            \<and> schemaExample this it = None \<and> (s_enum it = None \<or> s_enum it = Some []) \<longrightarrow>
          type f = Some N_string \<and> default f = Some (Value (JStr ''''))"
    using str by (intro allI impI)
  ultimately have "flds = f # fs \<and> (s_properties s = None \<longrightarrow> fs = [])
     \<and> fromSchema this its = Inr k
     \<and> displayName f = Some (startCase (JStr ''body'')) \<and> name f = Some ''body''
     \<and> type f = type k \<and> default f = default k \<and> description f = description k
     \<and> options f = options k
     \<and> required f = (if s_required s \<noteq> None then Some True else None)
     \<and> routing f = Some (body_routing (Whole json_parse_expr))
     \<and> (\<forall>it. resolve (schemas (refResolver this)) its = Inr it \<and> s_type it = Some T_string
            \<and> schemaExample this it = None \<and> (s_enum it = None \<or> s_enum it = Some []) \<longrightarrow>
          type f = Some N_string \<and> default f = Some (Value (JStr '''')))"
    using f(2-10) by (intro conjI)
  then show ?thesis
    by (intro exI)
qed

text \<open>Scenario B: an array of strings.\<close>

theorem fromRequestBody_array_items_witness:
  "\<exists>f. fromRequestBody (new_N8NINodeProperties empty_document) (Some (Obj scenario_b_body))
       = Inr [f]
     \<and> name f = Some ''body'' \<and> type f = Some N_string \<and> default f = Some (Value (JStr ''''))
     \<and> required f = None \<and> routing f = Some (body_routing (Whole json_parse_expr))"
proof -
  let ?s = "array_schema (Some (Obj (typed_schema (Some T_string))))"
  let ?out = "\<lparr>displayName = Some (startCase (JStr ''body'')), name = Some ''body'',
            type = Some N_string, default = Some (Value (JStr '''')), description = None,
            options = None, required = None,
            routing = Some (body_routing (Whole json_parse_expr)),
            typeOptions = None, displayOptions = None\<rparr>"
  have b: "fromRequestBody (new_N8NINodeProperties empty_document)
      (Some (Obj (json_body ''application/json'' ?s))) = Inr [?out]"
    using scenario_b_fields by (simp add: scenario_b_body_def)
  have t: "s_type ?s = Some T_array"
    and i: "s_items ?s = Some (Obj (typed_schema (Some T_string)))"
    by (simp_all add: array_schema_def)
  from fromRequestBody_array_items [OF scenario_hypotheses t i b]
  obtain f rest where
    1: "[?out] = f # rest"
    and 2: "name f = Some ''body''"
    and 3: "required f = (if s_required ?s \<noteq> None then Some True else None)"
    and 4: "routing f = Some (body_routing (Whole json_parse_expr))"
    by blast
  from 1 have 0: "rest = []" and 5: "type f = Some N_string"
    and 6: "default f = Some (Value (JStr ''''))"
    by auto
  from 3 have 7: "required f = None"
    by (simp add: array_schema_def)
  have "fromRequestBody (new_N8NINodeProperties empty_document) (Some (Obj scenario_b_body))
      = Inr [f]"
    using scenario_b_fields 1 0 by simp
  with 2 4 5 6 7 show ?thesis
    by blast
qed

text \<open>
  The claim as written says that an array of strings gives a \<^verbatim>\<open>json\<close> field with
  default \<^verbatim>\<open>"[]"\<close>, and that every array schema gives the field. Scenario B returns a
  \<^verbatim>\<open>string\<close> field with default \<^verbatim>\<open>""\<close>, and an array schema without items returns
  no field.
\<close>

theorem fromRequestBody_array_of_strings_counterexample:
  "\<not> (\<exists>f. fromRequestBody (new_N8NINodeProperties empty_document) (Some (Obj scenario_b_body))
          = Inr [f]
        \<and> type f = Some N_json \<and> default f = Some (Value (JStr ''[]'')))
   \<and> fromRequestBody (new_N8NINodeProperties empty_document)
        (Some (Obj (json_body ''application/json'' (array_schema None)))) = Inr []"
  by (simp add: scenario_b_fields) (simp add: compiler_defs input_defs)

text \<open>
  Claim C10. When the selected JSON schema has type array but neither an \<^verbatim>\<open>items\<close>
  member nor properties, \<^verbatim>\<open>fromRequestBody\<close> returns the empty list of fields: no
  error is raised and no field is emitted.
\<close>

theorem fromRequestBody_array_without_items:
  assumes "resolve (requestBodies (refResolver this)) b = Inr rb"
    and "map_of (content rb) ''multipart/form-data'' = None"
    and "findKey (content rb) regexp_test = Some cnt"
    and "resolve (schemas (refResolver this)) (media_schema cnt) = Inr s"
    and "s_type s = Some T_array"
    and "s_items s = None"
    and "s_properties s = None"
  shows "fromRequestBody this (Some b) = Inr []"
  by (simp add: fromRequestBody_json [OF assms(1-4)] array_body_fields_none assms(5-7))

text \<open>The schema \<^verbatim>\<open>{type: 'array'}\<close>.\<close>

theorem fromRequestBody_array_without_items_witness:
  "fromRequestBody (new_N8NINodeProperties empty_document)
     (Some (Obj (json_body ''application/json'' (array_schema None)))) = Inr []"
  using fromRequestBody_array_without_items
    [of "new_N8NINodeProperties empty_document"
      "Obj (json_body ''application/json'' (array_schema None))"
      "json_body ''application/json'' (array_schema None)"
      "\<lparr>media_schema = Obj (array_schema None)\<rparr>" "array_schema None"]
  by (simp add: resolve_def json_body_def array_schema_def findKey_def)

subsection \<open>fromMultipartFormData\<close>

lemma multipart_property_field_fields:
  assumes "multipart_property_field this s (key, p) = Inr f"
  shows "\<exists>rp k. resolve (schemas (refResolver this)) p = Inr rp \<and> fromSchema this p = Inr k
     \<and> displayName f = Some (startCase (JStr key)) \<and> name f = Some key
     \<and> default f = default k \<and> description f = description k \<and> options f = options k
     \<and> required f =
         (if key \<in> set (case s_required s of None \<Rightarrow> [] | Some r \<Rightarrow> r) then Some True else None)
     \<and> (if s_format rp = Some ''binary''
         then type f = Some N_string \<and> typeOptions f = Some \<lparr>isFilePath = Some True\<rparr>
           \<and> routing f = Some (body_routing (Keyed [(key, binary_expr)]))
         else type f = type k \<and> typeOptions f = None
           \<and> routing f = Some (body_routing (Keyed [(key, value_expr)])))"
proof (cases "resolve (schemas (refResolver this)) p")
  case (Inl e)
  with assms show ?thesis
    by (simp add: multipart_property_field_def)
next
  case rp: (Inr rp)
  show ?thesis
  proof (cases "fromSchemaProperty this key (Obj rp)")
    case (Inl e)
    with assms rp show ?thesis
      by (simp add: multipart_property_field_def)
  next
    case (Inr g)
    from fromSchemaProperty_fields [OF Inr] obtain k where
      k: "fromSchema this (Obj rp) = Inr k"
      "displayName g = Some (startCase (JStr key))" "name g = Some key"
      "type g = type k" "default g = default k" "description g = description k"
      "options g = options k" "required g = None" "typeOptions g = None"
      by blast
    have k': "fromSchema this p = Inr k"
      using fromSchema_resolved [OF rp] k(1) by simp
    define c where "c = combine
        [empty_properties\<lparr>required := map_option (\<lambda>r. key \<in> set r) (s_required s)\<rparr>, g]"
    have c: "displayName c = Some (startCase (JStr key))" "name c = Some key"
      "type c = type k" "default c = default k" "description c = description k"
      "options c = options k" "typeOptions c = None"
      "required c =
         (if key \<in> set (case s_required s of None \<Rightarrow> [] | Some r \<Rightarrow> r) then Some True else None)"
      by (simp_all add: c_def combine_pair empty_properties_def k split: option.splits)
    have "f = (if s_format rp = Some ''binary''
        then c\<lparr>type := Some N_string,
               typeOptions := Some \<lparr>isFilePath = Some True\<rparr>,
               routing := Some (body_routing (Keyed [(key, binary_expr)]))\<rparr>
        else c\<lparr>routing := Some (body_routing (Keyed [(key, value_expr)]))\<rparr>)"
      using assms c(7)
      by (simp add: multipart_property_field_def rp Inr c_def [symmetric] Let_def
          split: if_splits)
    then show ?thesis
      by (simp add: rp k' c)
  qed
qed

text \<open>
  Claim C8. The multipart branch fails with \<open>MultipartSchemaMissingProperties\<close> when
  the schema declares no properties. Otherwise it returns one field per declared
  property, in order: when the resolved property has the format \<^verbatim>\<open>binary\<close>, a
  \<^verbatim>\<open>string\<close> field flagged \<^verbatim>\<open>isFilePath\<close> whose routing writes
  \<^verbatim>\<open>$binary[$value]\<close> into the body under the name of the property; for every other
  property the field of the type-mapping table, whose routing writes the verbatim value
  under the name of the property.
\<close>

theorem fromMultipartFormData_fields:
  assumes "resolve (schemas (refResolver this)) (media_schema cnt) = Inr s"
  shows "(s_properties s = None \<longrightarrow>
        fromMultipartFormData this cnt = Inl MultipartSchemaMissingProperties)
   \<and> (\<forall>props flds. s_properties s = Some props \<and> fromMultipartFormData this cnt = Inr flds \<longrightarrow>
        list_all2
          (\<lambda>(key, p) f. \<exists>rp k. resolve (schemas (refResolver this)) p = Inr rp
             \<and> fromSchema this p = Inr k
             \<and> displayName f = Some (startCase (JStr key)) \<and> name f = Some key
             \<and> default f = default k \<and> description f = description k \<and> options f = options k
             \<and> required f =
                 (if key \<in> set (case s_required s of None \<Rightarrow> [] | Some r \<Rightarrow> r) then Some True
                  else None)
             \<and> (if s_format rp = Some ''binary''
                 then type f = Some N_string \<and> typeOptions f = Some \<lparr>isFilePath = Some True\<rparr>
                   \<and> routing f = Some (body_routing (Keyed [(key, binary_expr)]))
                 else type f = type k \<and> typeOptions f = None
                   \<and> routing f = Some (body_routing (Keyed [(key, value_expr)]))))
          props flds)"
proof (intro conjI allI impI)
  assume "s_properties s = None"
  then show "fromMultipartFormData this cnt = Inl MultipartSchemaMissingProperties"
    by (simp add: fromMultipartFormData_def assms)
next
  fix props flds
  assume a: "s_properties s = Some props \<and> fromMultipartFormData this cnt = Inr flds"
  then have "for_each (multipart_property_field this s) props = Inr flds"
    by (auto simp: fromMultipartFormData_def assms)
  then have "list_all2 (\<lambda>kp f. multipart_property_field this s kp = Inr f) props flds"
    by (simp add: for_each_Inr_iff)
  then show "list_all2
          (\<lambda>(key, p) f. \<exists>rp k. resolve (schemas (refResolver this)) p = Inr rp
             \<and> fromSchema this p = Inr k
             \<and> displayName f = Some (startCase (JStr key)) \<and> name f = Some key
             \<and> default f = default k \<and> description f = description k \<and> options f = options k
             \<and> required f =
                 (if key \<in> set (case s_required s of None \<Rightarrow> [] | Some r \<Rightarrow> r) then Some True
                  else None)
             \<and> (if s_format rp = Some ''binary''
                 then type f = Some N_string \<and> typeOptions f = Some \<lparr>isFilePath = Some True\<rparr>
                   \<and> routing f = Some (body_routing (Keyed [(key, binary_expr)]))
                 else type f = type k \<and> typeOptions f = None
                   \<and> routing f = Some (body_routing (Keyed [(key, value_expr)]))))
          props flds"
  proof (rule list_all2_mono)
    fix kp f
    assume m: "multipart_property_field this s kp = Inr f"
    obtain key p where kp: "kp = (key, p)"
      by (cases kp)
    show "(case kp of (key, p) \<Rightarrow> \<lambda>f. \<exists>rp k. resolve (schemas (refResolver this)) p = Inr rp
             \<and> fromSchema this p = Inr k
             \<and> displayName f = Some (startCase (JStr key)) \<and> name f = Some key
             \<and> default f = default k \<and> description f = description k \<and> options f = options k
             \<and> required f =
                 (if key \<in> set (case s_required s of None \<Rightarrow> [] | Some r \<Rightarrow> r) then Some True
                  else None)
             \<and> (if s_format rp = Some ''binary''
                 then type f = Some N_string \<and> typeOptions f = Some \<lparr>isFilePath = Some True\<rparr>
                   \<and> routing f = Some (body_routing (Keyed [(key, binary_expr)]))
                 else type f = type k \<and> typeOptions f = None
                   \<and> routing f = Some (body_routing (Keyed [(key, value_expr)])))) f"
      unfolding kp prod.case
      by (rule multipart_property_field_fields [OF m [unfolded kp]])
  qed
qed

text \<open>
  A multipart schema without properties, and scenario C: a binary property and an object
  property.
\<close>

theorem fromMultipartFormData_fields_witness:
  "fromMultipartFormData (new_N8NINodeProperties empty_document)
      \<lparr>media_schema = Obj (typed_schema (Some T_object))\<rparr>
     = Inl MultipartSchemaMissingProperties
   \<and> (\<exists>file note. fromMultipartFormData (new_N8NINodeProperties empty_document)
          scenario_c_content = Inr [file, note]
        \<and> name file = Some ''file'' \<and> type file = Some N_string
        \<and> typeOptions file = Some \<lparr>isFilePath = Some True\<rparr>
        \<and> routing file = Some (body_routing (Keyed [(''file'', binary_expr)]))
        \<and> name note = Some ''note'' \<and> type note = Some N_json
        \<and> typeOptions note = None
        \<and> routing note = Some (body_routing (Keyed [(''note'', value_expr)])))"
proof -
  have r: "resolve (schemas (refResolver (new_N8NINodeProperties empty_document))) (Obj s) = Inr s"
    for s
    by (rule resolve_Obj)
  have 1: "fromMultipartFormData (new_N8NINodeProperties empty_document)
      \<lparr>media_schema = Obj (typed_schema (Some T_object))\<rparr>
     = Inl MultipartSchemaMissingProperties"
    using fromMultipartFormData_fields
      [of "new_N8NINodeProperties empty_document"
        "\<lparr>media_schema = Obj (typed_schema (Some T_object))\<rparr>" "typed_schema (Some T_object)"]
    by (simp add: r typed_schema_def)
  have h: "resolve (schemas (refResolver (new_N8NINodeProperties empty_document)))
      (media_schema scenario_c_content)
      = Inr (object_schema [(''file'', Obj binary_schema),
               (''note'', Obj (typed_schema (Some T_object)))] None)"
    by (simp add: scenario_c_content_def r)
  have p: "s_properties (object_schema [(''file'', Obj binary_schema),
               (''note'', Obj (typed_schema (Some T_object)))] None)
      = Some [(''file'', Obj binary_schema), (''note'', Obj (typed_schema (Some T_object)))]"
    by (simp add: object_schema_def)
  note w = fromMultipartFormData_fields [OF h, THEN conjunct2, rule_format,
      OF conjI [OF p scenario_c_fields]]
  have 2: "\<exists>file note. fromMultipartFormData (new_N8NINodeProperties empty_document)
          scenario_c_content = Inr [file, note]
        \<and> name file = Some ''file'' \<and> type file = Some N_string
        \<and> typeOptions file = Some \<lparr>isFilePath = Some True\<rparr>
        \<and> routing file = Some (body_routing (Keyed [(''file'', binary_expr)]))
        \<and> name note = Some ''note'' \<and> type note = Some N_json
        \<and> typeOptions note = None
        \<and> routing note = Some (body_routing (Keyed [(''note'', value_expr)]))"
    using w by (simp add: scenario_c_fields body_field_def)
  from 1 2 show ?thesis
    by (rule conjI)
qed

subsection \<open>parseFields\<close>

text \<open>
  The stable sort with \<^verbatim>\<open>sessionFirst\<close> moves the fields named \<^verbatim>\<open>session\<close> to the
  front and keeps the order of all others.
\<close>

lemma insert_sorted_sessionFirst:
  assumes "\<forall>y \<in> set ss. is_session y" and "\<forall>y \<in> set ns. \<not> is_session y"
  shows "insert_sorted sessionFirst x (ss @ ns) =
     (if is_session x then x # ss @ ns else ss @ x # ns)"
  using assms
proof (induction ss)
  case Nil
  then show ?case
    by (cases ns) (auto simp: sessionFirst_def is_session_def)
next
  case (Cons s ss)
  then show ?case
    by (auto simp: sessionFirst_def is_session_def)
qed

lemma stable_sort_sessionFirst:
  "stable_sort sessionFirst xs = filter is_session xs @ filter (\<lambda>f. \<not> is_session f) xs"
proof (induction xs)
  case Nil
  show ?case by (simp add: stable_sort_def)
next
  case (Cons x xs)
  have "stable_sort sessionFirst (x # xs) = insert_sorted sessionFirst x (stable_sort sessionFirst xs)"
    by (simp add: stable_sort_def)
  also have "\<dots> = insert_sorted sessionFirst x
      (filter is_session xs @ filter (\<lambda>f. \<not> is_session f) xs)"
    by (simp only: Cons.IH)
  also have "\<dots> = (if is_session x
      then x # filter is_session xs @ filter (\<lambda>f. \<not> is_session f) xs
      else filter is_session xs @ x # filter (\<lambda>f. \<not> is_session f) xs)"
    by (rule insert_sorted_sessionFirst) simp_all
  finally show ?case
    by simp
qed

text \<open>
  \<^verbatim>\<open>sessionFirst\<close> is consistent on an array with at most one field named
  \<^verbatim>\<open>session\<close>, and on no array with two of them: it puts each of the two before the
  other.
\<close>

lemma filter_at_most_one:
  assumes "length (filter P xs) \<le> 1" and "i < length xs" and "j < length xs"
    and "P (xs ! i)" and "P (xs ! j)"
  shows "i = j"
proof (rule ccontr)
  assume ne: "i \<noteq> j"
  have "{i, j} \<subseteq> {k. k < length xs \<and> P (xs ! k)}"
    using assms by simp
  then have "card {i, j} \<le> card {k. k < length xs \<and> P (xs ! k)}"
    by (intro card_mono) simp_all
  with ne have "2 \<le> length (filter P xs)"
    by (simp add: length_filter_conv_card)
  with assms(1) show False
    by simp
qed

lemma consistent_sessionFirst:
  assumes "length (filter is_session xs) \<le> 1"
  shows "consistent_comparator sessionFirst xs"
proof -
  have one: "\<not> (is_session (xs ! i) \<and> is_session (xs ! j))"
    if "i < length xs" "j < length xs" "i \<noteq> j" for i j
    using filter_at_most_one [OF assms that(1,2)] that(3) by blast
  show ?thesis
    unfolding consistent_comparator_def
  proof (intro conjI allI impI)
    fix i j
    assume "i < length xs" "j < length xs" "i \<noteq> j"
    from one [OF this]
    show "sessionFirst (xs ! i) (xs ! j) < 0 \<longleftrightarrow> sessionFirst (xs ! j) (xs ! i) > 0"
      by (simp add: sessionFirst_def is_session_def)
  qed (simp_all add: sessionFirst_def split: if_splits)
qed

lemma inconsistent_sessionFirst:
  assumes "i < length xs" and "j < length xs" and "i \<noteq> j"
    and "is_session (xs ! i)" and "is_session (xs ! j)"
  shows "\<not> consistent_comparator sessionFirst xs"
proof
  assume "consistent_comparator sessionFirst xs"
  then have "sessionFirst (xs ! i) (xs ! j) < 0 \<longleftrightarrow> sessionFirst (xs ! j) (xs ! i) > 0"
    using assms(1-3) by (simp add: consistent_comparator_def)
  with assms(4,5) show False
    by (simp add: sessionFirst_def is_session_def)
qed

text \<open>The sort rearranges the array, and leaves an array in every case.\<close>

lemma array_sort_mset:
  assumes "ys \<in> array_sort sessionFirst xs"
  shows "mset ys = mset xs"
proof (cases "consistent_comparator sessionFirst xs")
  case True
  with assms have "ys = filter is_session xs @ filter (\<lambda>f. \<not> is_session f) xs"
    by (simp add: array_sort_def stable_sort_sessionFirst)
  then show ?thesis
    by simp
next
  case False
  with assms show ?thesis
    by (simp add: array_sort_def)
qed

lemma array_sort_sessionFirst:
  assumes "ys \<in> array_sort sessionFirst xs" and "length (filter is_session xs) \<le> 1"
  shows "ys = filter is_session xs @ filter (\<lambda>f. \<not> is_session f) xs"
  using assms consistent_sessionFirst [OF assms(2)]
  by (simp add: array_sort_def stable_sort_sessionFirst)

lemma array_sort_nonempty:
  "\<exists>ys. ys \<in> array_sort comparefn xs"
  by (auto simp: array_sort_def)

lemma mset_pair:
  "mset ys = mset [a, b] \<longleftrightarrow> ys = [a, b] \<or> ys = [b, a]"
proof
  assume m: "mset ys = mset [a, b]"
  then have "length ys = 2"
    by (metis length_Cons list.size(3) numeral_2_eq_2 size_mset)
  then obtain x y where ys: "ys = [x, y]"
    by (cases ys; cases "tl ys") auto
  with m show "ys = [a, b] \<or> ys = [b, a]"
    by (auto simp: add_eq_conv_ex)
next
  assume "ys = [a, b] \<or> ys = [b, a]"
  then show "mset ys = mset [a, b]"
    by (auto simp: add_mset_commute)
qed

lemma hd_session_first:
  assumes "out = filter P flds @ filter (\<lambda>f. \<not> P f) flds" and "\<exists>f \<in> set flds. P f"
  shows "P (hd out)"
proof -
  from assms(2) have ne: "filter P flds \<noteq> []"
    by (simp add: filter_empty_conv)
  then have "hd out = hd (filter P flds)"
    by (simp add: assms(1))
  moreover have "hd (filter P flds) \<in> set (filter P flds)"
    using ne by (rule hd_in_set)
  ultimately show ?thesis
    by simp
qed

lemma is_session_names:
  "map name (filter is_session flds) = filter (\<lambda>n. n = Some ''session'') (map name flds)"
  "map name (filter (\<lambda>f. \<not> is_session f) flds) =
     filter (\<lambda>n. n \<noteq> Some ''session'') (map name flds)"
  "length (filter is_session flds) = length (filter (\<lambda>n. n = Some ''session'') (map name flds))"
  by (induction flds) (simp_all add: is_session_def)

text \<open>
  An object without a property named by an array index is enumerated in the order of its
  declaration.
\<close>

lemma property_order_declaration:
  assumes "list_all (\<lambda>kv. array_index (fst kv) = None) kvs"
  shows "property_order kvs = kvs"
proof -
  have "filter (\<lambda>kv. array_index (fst kv) = None) kvs = kvs"
    using assms by (simp add: list_all_iff)
  moreover have "filter (\<lambda>kv. array_index (fst kv) \<noteq> None) kvs = []"
    using assms by (simp add: list_all_iff filter_empty_conv)
  ultimately show ?thesis
    by (simp add: property_order_def)
qed

text \<open>The names of the fields of a body are the names of the properties, in their order.\<close>

lemma json_property_field_names:
  assumes "list_all2 (\<lambda>kp f. json_property_field this s kp = Inr f) ps fs"
  shows "map name fs = map (\<lambda>kp. Some (fst kp)) ps"
  using assms
proof (induction rule: list_all2_induct)
  case Nil
  show ?case by simp
next
  case (Cons kp ps f fs)
  obtain key p where kp: "kp = (key, p)"
    by (cases kp)
  from Cons.hyps(1) have "json_property_field this s (key, p) = Inr f"
    by (simp only: kp)
  from json_property_field_fields [OF this] have "name f = Some key"
    by (elim exE conjE) assumption
  with Cons.IH show ?case
    by (simp add: kp)
qed

lemma multipart_property_field_names:
  assumes "list_all2 (\<lambda>kp f. multipart_property_field this s kp = Inr f) ps fs"
  shows "map name fs = map (\<lambda>kp. Some (fst kp)) ps"
  using assms
proof (induction rule: list_all2_induct)
  case Nil
  show ?case by simp
next
  case (Cons kp ps f fs)
  obtain key p where kp: "kp = (key, p)"
    by (cases kp)
  from Cons.hyps(1) have "multipart_property_field this s (key, p) = Inr f"
    by (simp only: kp)
  from multipart_property_field_fields [OF this] have "name f = Some key"
    by (elim exE conjE) assumption
  with Cons.IH show ?case
    by (simp add: kp)
qed

lemma array_body_fields_names:
  assumes "array_body_fields this s = Inr pre"
  shows "map name pre =
     (if s_type s = Some T_array \<and> s_items s \<noteq> None then [Some ''body''] else [])"
proof (cases "s_type s = Some T_array \<and> s_items s \<noteq> None")
  case True
  then obtain its where its: "s_items s = Some its"
    by auto
  from True have ty: "s_type s = Some T_array"
    by simp
  from array_body_fields_array [OF ty its assms]
  obtain f where "pre = [f]" "name f = Some ''body''"
    by (elim exE conjE) (rule that, assumption+)
  with True show ?thesis
    by simp
next
  case False
  then have "array_body_fields this s = Inr []"
    by (intro array_body_fields_none) auto
  with assms False show ?thesis
    by simp
qed

lemma fromRequestBody_names:
  assumes "fromRequestBody this (Some b) = Inr bodyFields"
  shows "\<exists>rb cnt s. resolve (requestBodies (refResolver this)) b = Inr rb
     \<and> (map_of (content rb) ''multipart/form-data'' = Some cnt
        \<or> map_of (content rb) ''multipart/form-data'' = None
          \<and> findKey (content rb) regexp_test = Some cnt)
     \<and> resolve (schemas (refResolver this)) (media_schema cnt) = Inr s
     \<and> map name bodyFields =
         (if map_of (content rb) ''multipart/form-data'' = None
             \<and> s_type s = Some T_array \<and> s_items s \<noteq> None
          then [Some ''body''] else [])
         @ map (\<lambda>kp. Some (fst kp)) (case s_properties s of None \<Rightarrow> [] | Some ps \<Rightarrow> ps)"
proof (cases "resolve (requestBodies (refResolver this)) b")
  case (Inl e)
  with assms show ?thesis
    by (simp add: fromRequestBody_def)
next
  case rb: (Inr rb)
  show ?thesis
  proof (cases "map_of (content rb) ''multipart/form-data''")
    case (Some cnt)
    from fromRequestBody_multipart [OF rb Some] assms
    have m: "fromMultipartFormData this cnt = Inr bodyFields"
      by simp
    then obtain s where s: "resolve (schemas (refResolver this)) (media_schema cnt) = Inr s"
      by (cases "resolve (schemas (refResolver this)) (media_schema cnt)")
        (simp_all add: fromMultipartFormData_def)
    from m s obtain ps where ps: "s_properties s = Some ps"
      and fe: "for_each (multipart_property_field this s) ps = Inr bodyFields"
      by (cases "s_properties s") (simp_all add: fromMultipartFormData_def)
    from fe have "map name bodyFields = map (\<lambda>kp. Some (fst kp)) ps"
      by (simp add: for_each_Inr_iff multipart_property_field_names)
    then have n: "map name bodyFields =
         (if map_of (content rb) ''multipart/form-data'' = None
             \<and> s_type s = Some T_array \<and> s_items s \<noteq> None
          then [Some ''body''] else [])
         @ map (\<lambda>kp. Some (fst kp)) (case s_properties s of None \<Rightarrow> [] | Some ps \<Rightarrow> ps)"
      by (simp add: Some ps)
    show ?thesis
      by (rule exI [of _ rb], rule exI [of _ cnt], rule exI [of _ s])
        (intro conjI disjI1, fact rb, fact Some, fact s, fact n)
  next
    case None
    from assms rb None obtain cnt where cnt: "findKey (content rb) regexp_test = Some cnt"
      by (cases "findKey (content rb) regexp_test") (simp_all add: fromRequestBody_def)
    from assms rb None cnt obtain s where
      s: "resolve (schemas (refResolver this)) (media_schema cnt) = Inr s"
      by (cases "resolve (schemas (refResolver this)) (media_schema cnt)")
        (simp_all add: fromRequestBody_def)
    from fromRequestBody_json_fields [OF rb None cnt s assms]
    obtain pre fs where flds: "bodyFields = pre @ fs"
      and pre: "array_body_fields this s = Inr pre"
      and fs: "list_all2 (\<lambda>kp f. json_property_field this s kp = Inr f)
         (case s_properties s of None \<Rightarrow> [] | Some ps \<Rightarrow> ps) fs"
      by (elim exE conjE) (rule that, assumption+)
    have n: "map name bodyFields =
         (if map_of (content rb) ''multipart/form-data'' = None
             \<and> s_type s = Some T_array \<and> s_items s \<noteq> None
          then [Some ''body''] else [])
         @ map (\<lambda>kp. Some (fst kp)) (case s_properties s of None \<Rightarrow> [] | Some ps \<Rightarrow> ps)"
      unfolding flds map_append array_body_fields_names [OF pre]
        json_property_field_names [OF fs]
      by (simp add: None)
    have d: "map_of (content rb) ''multipart/form-data'' = Some cnt
        \<or> map_of (content rb) ''multipart/form-data'' = None
          \<and> findKey (content rb) regexp_test = Some cnt"
      using None cnt by simp
    show ?thesis
      by (rule exI [of _ rb], rule exI [of _ cnt], rule exI [of _ s])
        (intro conjI, fact rb, fact d, fact s, fact n)
  qed
qed

text \<open>\<^verbatim>\<open>parseFields\<close> returns fields when both compilers do, and only then.\<close>

lemma parseFields_Inr:
  assumes "Inr out \<in> parseFields this resourceName operationName operation"
  shows "\<exists>parameterFields bodyFields.
       fromParameters this (op_parameters operation) = Inr parameterFields
     \<and> fromRequestBody this (op_requestBody operation) = Inr bodyFields
     \<and> out \<in> array_sort sessionFirst (map (\<lambda>field. field\<lparr>displayOptions := Some
              \<lparr>show_resource = [resourceName], show_operation = [operationName]\<rparr>\<rparr>)
              (parameterFields @ bodyFields))"
proof (cases "fromParameters this (op_parameters operation)")
  case (Inl e)
  with assms show ?thesis
    by (simp add: parseFields_def)
next
  case pf: (Inr parameterFields)
  show ?thesis
  proof (cases "fromRequestBody this (op_requestBody operation)")
    case (Inl e)
    with assms pf show ?thesis
      by (simp add: parseFields_def)
  next
    case bf: (Inr bodyFields)
    from assms have "out \<in> array_sort sessionFirst (map (\<lambda>field. field\<lparr>displayOptions := Some
              \<lparr>show_resource = [resourceName], show_operation = [operationName]\<rparr>\<rparr>)
              (parameterFields @ bodyFields))"
      by (simp add: parseFields_def pf bf Let_def image_iff del: map_append)
    with pf bf show ?thesis
      by simp
  qed
qed

lemma parseFields_returns:
  assumes "fromParameters this (op_parameters operation) = Inr parameterFields"
    and "fromRequestBody this (op_requestBody operation) = Inr bodyFields"
  shows "\<exists>out. Inr out \<in> parseFields this resourceName operationName operation"
proof -
  obtain ys where "ys \<in> array_sort sessionFirst (map (\<lambda>field. field\<lparr>displayOptions := Some
              \<lparr>show_resource = [resourceName], show_operation = [operationName]\<rparr>\<rparr>)
              (parameterFields @ bodyFields))"
    using array_sort_nonempty by blast
  then have "Inr ys \<in> parseFields this resourceName operationName operation"
    by (simp add: parseFields_def assms Let_def del: map_append)
  then show ?thesis ..
qed

lemma parseFields_nonempty:
  "\<exists>r. r \<in> parseFields this resourceName operationName operation"
proof (cases "fromParameters this (op_parameters operation)")
  case (Inl e)
  then show ?thesis
    by (simp add: parseFields_def)
next
  case pf: (Inr parameterFields)
  show ?thesis
  proof (cases "fromRequestBody this (op_requestBody operation)")
    case (Inl e)
    with pf show ?thesis
      by (simp add: parseFields_def)
  next
    case (Inr bodyFields)
    from parseFields_returns [OF pf Inr] show ?thesis
      by blast
  qed
qed

text \<open>
  Claim C9, as amended. Whatever list \<^verbatim>\<open>parseFields\<close> returns for an operation is a
  rearrangement of the compiled fields: the fields of the parameters, in the order of the
  parameters, followed by the fields of the body, named after the properties in the order
  in which \<^verbatim>\<open>for (const key in properties)\<close> enumerates them (after the field
  \<^verbatim>\<open>body\<close> of a JSON array with items), each with the display options of the
  operation. That order is the order of declaration when no property is named by an array
  index. When at most one compiled field is named \<^verbatim>\<open>session\<close>, the returned list is
  the field named \<^verbatim>\<open>session\<close>, if there is one, followed by all other fields in
  their order of insertion. (\<^verbatim>\<open>parseOperation\<close> may put its notice, which is no input
  field, in front of this list afterwards.)
\<close>

theorem parseFields_session_first:
  assumes "Inr out \<in> parseFields this resourceName operationName operation"
  shows "\<exists>parameterFields bodyFields.
       fromParameters this (op_parameters operation) = Inr parameterFields
     \<and> fromRequestBody this (op_requestBody operation) = Inr bodyFields
     \<and> list_all2 (\<lambda>p f. fromParameter this p = Inr f)
         (case op_parameters operation of None \<Rightarrow> [] | Some ps \<Rightarrow> ps) parameterFields
     \<and> (case op_requestBody operation of
          None \<Rightarrow> bodyFields = []
        | Some b \<Rightarrow>
            (\<exists>rb cnt s. resolve (requestBodies (refResolver this)) b = Inr rb
               \<and> (map_of (content rb) ''multipart/form-data'' = Some cnt
                  \<or> map_of (content rb) ''multipart/form-data'' = None
                    \<and> findKey (content rb) regexp_test = Some cnt)
               \<and> resolve (schemas (refResolver this)) (media_schema cnt) = Inr s
               \<and> map name bodyFields =
                   (if map_of (content rb) ''multipart/form-data'' = None
                       \<and> s_type s = Some T_array \<and> s_items s \<noteq> None
                    then [Some ''body''] else [])
                   @ map (\<lambda>kp. Some (fst kp))
                       (case s_properties s of None \<Rightarrow> [] | Some ps \<Rightarrow> ps)
               \<and> (\<forall>declared.
                     s_properties s = Some (property_order declared)
                     \<and> list_all (\<lambda>kp. array_index (fst kp) = None) declared
                   \<longrightarrow> map name bodyFields =
                         (if map_of (content rb) ''multipart/form-data'' = None
                             \<and> s_type s = Some T_array \<and> s_items s \<noteq> None
                          then [Some ''body''] else [])
                         @ map (\<lambda>kp. Some (fst kp)) declared)))
     \<and> (let flds = map (\<lambda>field. field\<lparr>displayOptions := Some
              \<lparr>show_resource = [resourceName], show_operation = [operationName]\<rparr>\<rparr>)
              (parameterFields @ bodyFields)
        in mset out = mset flds
         \<and> (length (filter is_session flds) \<le> 1 \<longrightarrow>
              out = filter is_session flds @ filter (\<lambda>f. \<not> is_session f) flds
            \<and> ((\<exists>f \<in> set flds. is_session f) \<longrightarrow> is_session (hd out))))"
proof -
  from parseFields_Inr [OF assms] obtain parameterFields bodyFields where
    pf: "fromParameters this (op_parameters operation) = Inr parameterFields"
    and bf: "fromRequestBody this (op_requestBody operation) = Inr bodyFields"
    and srt: "out \<in> array_sort sessionFirst (map (\<lambda>field. field\<lparr>displayOptions := Some
              \<lparr>show_resource = [resourceName], show_operation = [operationName]\<rparr>\<rparr>)
              (parameterFields @ bodyFields))"
    by (elim exE conjE) (rule that, assumption+)
  define flds where "flds = map (\<lambda>field. field\<lparr>displayOptions := Some
              \<lparr>show_resource = [resourceName], show_operation = [operationName]\<rparr>\<rparr>)
              (parameterFields @ bodyFields)"
  have params: "list_all2 (\<lambda>p f. fromParameter this p = Inr f)
         (case op_parameters operation of None \<Rightarrow> [] | Some ps \<Rightarrow> ps) parameterFields"
    using pf by (cases "op_parameters operation") (simp_all add: fromParameters_def for_each_Inr_iff)
  have body: "case op_requestBody operation of
          None \<Rightarrow> bodyFields = []
        | Some b \<Rightarrow>
            (\<exists>rb cnt s. resolve (requestBodies (refResolver this)) b = Inr rb
               \<and> (map_of (content rb) ''multipart/form-data'' = Some cnt
                  \<or> map_of (content rb) ''multipart/form-data'' = None
                    \<and> findKey (content rb) regexp_test = Some cnt)
               \<and> resolve (schemas (refResolver this)) (media_schema cnt) = Inr s
               \<and> map name bodyFields =
                   (if map_of (content rb) ''multipart/form-data'' = None
                       \<and> s_type s = Some T_array \<and> s_items s \<noteq> None
                    then [Some ''body''] else [])
                   @ map (\<lambda>kp. Some (fst kp))
                       (case s_properties s of None \<Rightarrow> [] | Some ps \<Rightarrow> ps)
               \<and> (\<forall>declared.
                     s_properties s = Some (property_order declared)
                     \<and> list_all (\<lambda>kp. array_index (fst kp) = None) declared
                   \<longrightarrow> map name bodyFields =
                         (if map_of (content rb) ''multipart/form-data'' = None
                             \<and> s_type s = Some T_array \<and> s_items s \<noteq> None
                          then [Some ''body''] else [])
                         @ map (\<lambda>kp. Some (fst kp)) declared))"
  proof (cases "op_requestBody operation")
    case None
    with bf show ?thesis
      by (simp add: fromRequestBody_def)
  next
    case (Some b)
    from bf Some have "fromRequestBody this (Some b) = Inr bodyFields"
      by simp
    from fromRequestBody_names [OF this] obtain rb cnt s where
      1: "resolve (requestBodies (refResolver this)) b = Inr rb"
      and 2: "map_of (content rb) ''multipart/form-data'' = Some cnt
                  \<or> map_of (content rb) ''multipart/form-data'' = None
                    \<and> findKey (content rb) regexp_test = Some cnt"
      and 3: "resolve (schemas (refResolver this)) (media_schema cnt) = Inr s"
      and 4: "map name bodyFields =
                   (if map_of (content rb) ''multipart/form-data'' = None
                       \<and> s_type s = Some T_array \<and> s_items s \<noteq> None
                    then [Some ''body''] else [])
                   @ map (\<lambda>kp. Some (fst kp))
                       (case s_properties s of None \<Rightarrow> [] | Some ps \<Rightarrow> ps)"
      by (elim exE conjE) (rule that, assumption+)
    have 5: "\<forall>declared.
                     s_properties s = Some (property_order declared)
                     \<and> list_all (\<lambda>kp. array_index (fst kp) = None) declared
                   \<longrightarrow> map name bodyFields =
                         (if map_of (content rb) ''multipart/form-data'' = None
                             \<and> s_type s = Some T_array \<and> s_items s \<noteq> None
                          then [Some ''body''] else [])
                         @ map (\<lambda>kp. Some (fst kp)) declared"
    proof (intro allI impI, elim conjE)
      fix declared
      assume "s_properties s = Some (property_order declared)"
        and "list_all (\<lambda>kp. array_index (fst kp) = None) declared"
      then have "s_properties s = Some declared"
        by (simp add: property_order_declaration)
      with 4 show "map name bodyFields =
                         (if map_of (content rb) ''multipart/form-data'' = None
                             \<and> s_type s = Some T_array \<and> s_items s \<noteq> None
                          then [Some ''body''] else [])
                         @ map (\<lambda>kp. Some (fst kp)) declared"
        by simp
    qed
    have "\<exists>rb cnt s. resolve (requestBodies (refResolver this)) b = Inr rb
               \<and> (map_of (content rb) ''multipart/form-data'' = Some cnt
                  \<or> map_of (content rb) ''multipart/form-data'' = None
                    \<and> findKey (content rb) regexp_test = Some cnt)
               \<and> resolve (schemas (refResolver this)) (media_schema cnt) = Inr s
               \<and> map name bodyFields =
                   (if map_of (content rb) ''multipart/form-data'' = None
                       \<and> s_type s = Some T_array \<and> s_items s \<noteq> None
                    then [Some ''body''] else [])
                   @ map (\<lambda>kp. Some (fst kp))
                       (case s_properties s of None \<Rightarrow> [] | Some ps \<Rightarrow> ps)
               \<and> (\<forall>declared.
                     s_properties s = Some (property_order declared)
                     \<and> list_all (\<lambda>kp. array_index (fst kp) = None) declared
                   \<longrightarrow> map name bodyFields =
                         (if map_of (content rb) ''multipart/form-data'' = None
                             \<and> s_type s = Some T_array \<and> s_items s \<noteq> None
                          then [Some ''body''] else [])
                         @ map (\<lambda>kp. Some (fst kp)) declared)"
      by (rule exI [of _ rb], rule exI [of _ cnt], rule exI [of _ s])
        (intro conjI, fact 1, fact 2, fact 3, fact 4, fact 5)
    then show ?thesis
      by (simp only: Some option.case)
  qed
  have ms: "mset out = mset flds"
    using srt unfolding flds_def [symmetric] by (rule array_sort_mset)
  have out: "out = filter is_session flds @ filter (\<lambda>f. \<not> is_session f) flds"
    if "length (filter is_session flds) \<le> 1"
    using srt that unfolding flds_def [symmetric] by (rule array_sort_sessionFirst)
  have srt': "let flds = map (\<lambda>field. field\<lparr>displayOptions := Some
              \<lparr>show_resource = [resourceName], show_operation = [operationName]\<rparr>\<rparr>)
              (parameterFields @ bodyFields)
        in mset out = mset flds
         \<and> (length (filter is_session flds) \<le> 1 \<longrightarrow>
              out = filter is_session flds @ filter (\<lambda>f. \<not> is_session f) flds
            \<and> ((\<exists>f \<in> set flds. is_session f) \<longrightarrow> is_session (hd out)))"
    unfolding Let_def flds_def [symmetric]
    using ms out hd_session_first [of out is_session flds] by blast
  show ?thesis
    by (rule exI [of _ parameterFields], rule exI [of _ bodyFields])
      (intro conjI, fact pf, fact bf, fact params, fact body, fact srt')
qed

text \<open>
  An operation with the parameters id and session and the body of scenario A, whose
  properties name, active and meta are enumerated as they are declared.
\<close>

theorem parseFields_session_first_witness:
  "\<exists>out. Inr out \<in> parseFields (new_N8NINodeProperties empty_document) ''chat'' ''Send Text''
        session_operation
     \<and> map name out =
         [Some ''session'', Some ''id'', Some ''name'', Some ''active'', Some ''meta'']"
proof -
  let ?np = "new_N8NINodeProperties empty_document"
  let ?declared = "[(''name'', Obj (typed_schema (Some T_string))),
         (''active'', Obj (typed_schema (Some T_boolean))),
         (''meta'', Obj (typed_schema (Some T_object)))]"
  have b: "fromRequestBody ?np (op_requestBody session_operation) =
      Inr [body_field ''name'' N_string (JStr '''') True value_expr,
          body_field ''active'' N_boolean (JBool True) False value_expr,
          body_field ''meta'' N_json (JStr ''{}'') False json_parse_expr]"
    using scenario_a_fields by (simp add: session_operation_def)
  from parseFields_returns [OF session_operation_parameters b, of "''chat''" "''Send Text''"]
  obtain out where out: "Inr out \<in> parseFields ?np ''chat'' ''Send Text'' session_operation"
    by (elim exE) (rule that)
  from parseFields_session_first [OF out]
  obtain parameterFields bodyFields where
    1: "fromParameters ?np (op_parameters session_operation) = Inr parameterFields"
    and 2: "case op_requestBody session_operation of
          None \<Rightarrow> bodyFields = []
        | Some b \<Rightarrow>
            (\<exists>rb cnt s. resolve (requestBodies (refResolver ?np)) b = Inr rb
               \<and> (map_of (content rb) ''multipart/form-data'' = Some cnt
                  \<or> map_of (content rb) ''multipart/form-data'' = None
                    \<and> findKey (content rb) regexp_test = Some cnt)
               \<and> resolve (schemas (refResolver ?np)) (media_schema cnt) = Inr s
               \<and> map name bodyFields =
                   (if map_of (content rb) ''multipart/form-data'' = None
                       \<and> s_type s = Some T_array \<and> s_items s \<noteq> None
                    then [Some ''body''] else [])
                   @ map (\<lambda>kp. Some (fst kp))
                       (case s_properties s of None \<Rightarrow> [] | Some ps \<Rightarrow> ps)
               \<and> (\<forall>declared.
                     s_properties s = Some (property_order declared)
                     \<and> list_all (\<lambda>kp. array_index (fst kp) = None) declared
                   \<longrightarrow> map name bodyFields =
                         (if map_of (content rb) ''multipart/form-data'' = None
                             \<and> s_type s = Some T_array \<and> s_items s \<noteq> None
                          then [Some ''body''] else [])
                         @ map (\<lambda>kp. Some (fst kp)) declared))"
    and 3: "let flds = map (\<lambda>field. field\<lparr>displayOptions := Some
              \<lparr>show_resource = [''chat''], show_operation = [''Send Text'']\<rparr>\<rparr>)
              (parameterFields @ bodyFields)
        in mset out = mset flds
         \<and> (length (filter is_session flds) \<le> 1 \<longrightarrow>
              out = filter is_session flds @ filter (\<lambda>f. \<not> is_session f) flds
            \<and> ((\<exists>f \<in> set flds. is_session f) \<longrightarrow> is_session (hd out)))"
    by (elim exE conjE) (rule that, assumption+)
  from 1 have p: "map name parameterFields = [Some ''id'', Some ''session'']"
    by (auto simp: session_operation_parameters)
  have rq: "op_requestBody session_operation = Some (Obj scenario_a_body)"
    by (simp add: session_operation_def)
  from 2 obtain rb cnt s where
    rb: "resolve (requestBodies (refResolver ?np)) (Obj scenario_a_body) = Inr rb"
    and cnt: "map_of (content rb) ''multipart/form-data'' = Some cnt
                  \<or> map_of (content rb) ''multipart/form-data'' = None
                    \<and> findKey (content rb) regexp_test = Some cnt"
    and s: "resolve (schemas (refResolver ?np)) (media_schema cnt) = Inr s"
    and d: "\<forall>declared.
                     s_properties s = Some (property_order declared)
                     \<and> list_all (\<lambda>kp. array_index (fst kp) = None) declared
                   \<longrightarrow> map name bodyFields =
                         (if map_of (content rb) ''multipart/form-data'' = None
                             \<and> s_type s = Some T_array \<and> s_items s \<noteq> None
                          then [Some ''body''] else [])
                         @ map (\<lambda>kp. Some (fst kp)) declared"
    unfolding rq option.case by (elim exE conjE) (rule that, assumption+)
  from rb have rb': "rb = scenario_a_body"
    by (simp add: resolve_def)
  from cnt have cnt': "cnt = \<lparr>media_schema = Obj (object_schema ?declared (Some [''name'']))\<rparr>"
    by (simp add: rb' scenario_a_body_def json_body_def findKey_def)
  from s have s': "s = object_schema ?declared (Some [''name''])"
    by (simp add: cnt' resolve_def)
  have ni: "list_all (\<lambda>kp. array_index (fst kp) = None) ?declared"
    by (simp add: array_index_def)
  have po: "s_properties s = Some (property_order ?declared)"
    by (simp add: s' object_schema_def property_order_def array_index_def)
  from d po ni have "map name bodyFields =
      (if map_of (content rb) ''multipart/form-data'' = None
          \<and> s_type s = Some T_array \<and> s_items s \<noteq> None
       then [Some ''body''] else [])
      @ map (\<lambda>kp. Some (fst kp)) ?declared"
    by (elim allE [of _ ?declared] impE) (intro conjI, assumption+)
  then have q: "map name bodyFields = [Some ''name'', Some ''active'', Some ''meta'']"
    by (simp add: s' object_schema_def)
  define flds where "flds = map (\<lambda>field. field\<lparr>displayOptions := Some
              \<lparr>show_resource = [''chat''], show_operation = [''Send Text'']\<rparr>\<rparr>)
              (parameterFields @ bodyFields)"
  have n: "map name flds =
      [Some ''id'', Some ''session'', Some ''name'', Some ''active'', Some ''meta'']"
    using p q by (simp add: flds_def comp_def)
  have le: "length (filter is_session flds) \<le> 1"
    by (simp add: is_session_names(3) n)
  from 3 have "length (filter is_session flds) \<le> 1 \<longrightarrow>
      out = filter is_session flds @ filter (\<lambda>f. \<not> is_session f) flds
      \<and> ((\<exists>f \<in> set flds. is_session f) \<longrightarrow> is_session (hd out))"
    unfolding Let_def flds_def [symmetric] by (elim conjE)
  with le have "out = filter is_session flds @ filter (\<lambda>f. \<not> is_session f) flds"
    by blast
  then have "map name out = map name (filter is_session flds)
      @ map name (filter (\<lambda>f. \<not> is_session f) flds)"
    by simp
  then have m: "map name out =
      [Some ''session'', Some ''id'', Some ''name'', Some ''active'', Some ''meta'']"
    unfolding is_session_names(1,2) n by simp
  show ?thesis
    by (rule exI [of _ out], rule conjI, rule out, rule m)
qed

text \<open>
  The claim as written puts the field named \<^verbatim>\<open>session\<close> first and keeps the fields of
  the parameters before those of the body, with the properties in the order of their
  declaration. For a query parameter \<^verbatim>\<open>session\<close> and a body property
  \<^verbatim>\<open>session\<close>, \<^verbatim>\<open>sessionFirst\<close> puts each of the two fields before the other: one
  of them is not first, and the engine decides which, so that the field of the body may
  come before the field of the parameter. For a body that declares the property
  \<^verbatim>\<open>name\<close> and then the property \<^verbatim>\<open>1\<close>, the loop meets \<^verbatim>\<open>1\<close> first, and so
  does the output.
\<close>

theorem parseFields_session_order_counterexample:
  "(\<exists>q b. routing q = Some (qs_routing ''session'' value_expr)
        \<and> routing b = Some (body_routing (Keyed [(''session'', value_expr)]))
        \<and> is_session q \<and> is_session b
        \<and> parseFields (new_N8NINodeProperties empty_document) ''chat'' ''Send Text''
            duplicate_session_operation = {Inr [q, b], Inr [b, q]})
   \<and> (\<exists>out. parseFields (new_N8NINodeProperties empty_document) ''chat'' ''Send Text''
            index_named_operation = {Inr out}
        \<and> map name out = [Some ''1'', Some ''name''])"
proof (rule conjI)
  let ?upd = "\<lambda>field. field\<lparr>displayOptions := Some
              \<lparr>show_resource = [''chat''], show_operation = [''Send Text'']\<rparr>\<rparr>"
  let ?q = "?upd \<lparr>displayName = Some (startCase (JStr ''session'')), name = Some ''session'',
            type = Some N_string, default = Some (Value (JStr '''')), description = None,
            options = None, required = None,
            routing = Some (qs_routing ''session'' value_expr),
            typeOptions = None, displayOptions = None\<rparr>"
  let ?b = "?upd (body_field ''session'' N_string (JStr '''') False value_expr)"
  have "\<not> consistent_comparator sessionFirst [?q, ?b]"
    by (rule inconsistent_sessionFirst [of 0 _ 1]) (simp_all add: is_session_def body_field_def)
  then have "array_sort sessionFirst [?q, ?b] = {[?q, ?b], [?b, ?q]}"
    unfolding array_sort_def by (simp only: if_False mset_pair) blast
  then have r: "parseFields (new_N8NINodeProperties empty_document) ''chat'' ''Send Text''
            duplicate_session_operation = {Inr [?q, ?b], Inr [?b, ?q]}"
    by (simp add: parseFields_def duplicate_session_fields Let_def)
  show "\<exists>q b. routing q = Some (qs_routing ''session'' value_expr)
        \<and> routing b = Some (body_routing (Keyed [(''session'', value_expr)]))
        \<and> is_session q \<and> is_session b
        \<and> parseFields (new_N8NINodeProperties empty_document) ''chat'' ''Send Text''
            duplicate_session_operation = {Inr [q, b], Inr [b, q]}"
    by (rule exI [of _ ?q], rule exI [of _ ?b])
      (intro conjI, simp, simp add: body_field_def, simp add: is_session_def,
        simp add: is_session_def body_field_def, rule r)
next
  let ?upd = "\<lambda>field. field\<lparr>displayOptions := Some
              \<lparr>show_resource = [''chat''], show_operation = [''Send Text'']\<rparr>\<rparr>"
  let ?out = "[?upd (body_field ''1'' N_string (JStr '''') False value_expr),
       ?upd (body_field ''name'' N_string (JStr '''') False value_expr)]"
  have "consistent_comparator sessionFirst ?out"
    by (rule consistent_sessionFirst) (simp add: is_session_def body_field_def)
  then have "array_sort sessionFirst ?out = {?out}"
    by (simp add: array_sort_def stable_sort_sessionFirst is_session_def body_field_def)
  then have r: "parseFields (new_N8NINodeProperties empty_document) ''chat'' ''Send Text''
            index_named_operation = {Inr ?out}"
    by (simp add: parseFields_def index_named_fields Let_def)
  show "\<exists>out. parseFields (new_N8NINodeProperties empty_document) ''chat'' ''Send Text''
            index_named_operation = {Inr out}
        \<and> map name out = [Some ''1'', Some ''name'']"
    by (rule exI [of _ ?out], rule conjI, rule r) (simp add: body_field_def)
qed

subsection \<open>The compiler returns when the references resolve\<close>

text \<open>
  The only way in which the compilation of a schema, of the properties of a JSON body or
  of a multipart body fails, once the content and its schema are found, is a pointer
  that does not resolve.
\<close>

lemma fromSchema_returns:
  assumes "resolve (schemas (refResolver this)) sch = Inr s"
  shows "\<exists>f. fromSchema this sch = Inr f"
  using assms
  by (auto simp: fromSchema_def Let_def split: prod.splits option.splits list.splits)

lemma fromSchemaProperty_returns:
  assumes "resolve (schemas (refResolver this)) p = Inr s"
  shows "\<exists>g. fromSchemaProperty this nm p = Inr g"
  using fromSchema_returns [OF assms] by (auto simp: fromSchemaProperty_def)

lemma for_each_returns:
  assumes "\<forall>x \<in> set xs. \<exists>y. f x = Inr y"
  shows "\<exists>ys. for_each f xs = Inr ys"
  using assms by (induction xs) auto

lemma json_property_field_returns:
  assumes "resolve (schemas (refResolver this)) (snd kp) = Inr rp"
  shows "\<exists>f. json_property_field this s kp = Inr f"
proof -
  obtain key p where kp: "kp = (key, p)"
    by (cases kp)
  from fromSchemaProperty_returns [of this p rp key] assms obtain g where
    "fromSchemaProperty this key p = Inr g"
    by (auto simp: kp)
  then show ?thesis
    by (simp add: json_property_field_def kp Let_def)
qed

lemma array_body_fields_returns:
  assumes "\<forall>its. s_items s = Some its \<longrightarrow> (\<exists>it. resolve (schemas (refResolver this)) its = Inr it)"
  shows "\<exists>pre. array_body_fields this s = Inr pre"
proof (cases "s_type s = Some T_array \<and> s_items s \<noteq> None")
  case False
  then have "array_body_fields this s = Inr []"
    by (intro array_body_fields_none) auto
  then show ?thesis
    by simp
next
  case True
  then obtain its where its: "s_items s = Some its"
    by auto
  with assms obtain it where it: "resolve (schemas (refResolver this)) its = Inr it"
    by auto
  from fromSchemaProperty_returns [of this "Obj it" it "''body''"] obtain g where
    "fromSchemaProperty this ''body'' (Obj it) = Inr g"
    by (auto simp: resolve_Obj)
  with True its it show ?thesis
    by (simp add: array_body_fields_def Let_def)
qed

lemma fromRequestBody_json_returns:
  assumes "resolve (requestBodies (refResolver this)) b = Inr rb"
    and "map_of (content rb) ''multipart/form-data'' = None"
    and "findKey (content rb) regexp_test = Some cnt"
    and "resolve (schemas (refResolver this)) (media_schema cnt) = Inr s"
    and "s_properties s \<noteq> None \<or> s_type s = Some T_object \<or> s_type s = Some T_array"
    and "\<forall>its. s_items s = Some its \<longrightarrow> (\<exists>it. resolve (schemas (refResolver this)) its = Inr it)"
    and "\<forall>kp \<in> set (case s_properties s of None \<Rightarrow> [] | Some ps \<Rightarrow> ps).
           \<exists>rp. resolve (schemas (refResolver this)) (snd kp) = Inr rp"
  shows "\<exists>flds. fromRequestBody this (Some b) = Inr flds"
proof -
  from array_body_fields_returns [OF assms(6)] obtain pre where
    pre: "array_body_fields this s = Inr pre"
    by blast
  have "\<forall>kp \<in> set (case s_properties s of None \<Rightarrow> [] | Some ps \<Rightarrow> ps).
      \<exists>f. json_property_field this s kp = Inr f"
    using assms(7) json_property_field_returns by blast
  then obtain fs where
    fs: "for_each (json_property_field this s)
      (case s_properties s of None \<Rightarrow> [] | Some ps \<Rightarrow> ps) = Inr fs"
    using for_each_returns by blast
  have "fromRequestBody this (Some b) = Inr (pre @ fs)"
    using assms(5) by (auto simp: fromRequestBody_json [OF assms(1-4)] pre fs)
  then show ?thesis
    by blast
qed

lemma multipart_property_field_returns:
  assumes "resolve (schemas (refResolver this)) (snd kp) = Inr rp"
  shows "\<exists>f. multipart_property_field this s kp = Inr f"
proof -
  obtain key p where kp: "kp = (key, p)"
    by (cases kp)
  from fromSchemaProperty_returns [of this "Obj rp" rp key] obtain g where
    "fromSchemaProperty this key (Obj rp) = Inr g"
    by (auto simp: resolve_Obj)
  with assms show ?thesis
    by (simp add: multipart_property_field_def kp Let_def)
qed

lemma fromMultipartFormData_returns:
  assumes "resolve (schemas (refResolver this)) (media_schema cnt) = Inr s"
    and "s_properties s = Some props"
    and "\<forall>kp \<in> set props. \<exists>rp. resolve (schemas (refResolver this)) (snd kp) = Inr rp"
  shows "\<exists>flds. fromMultipartFormData this cnt = Inr flds"
proof -
  have "\<forall>kp \<in> set props. \<exists>f. multipart_property_field this s kp = Inr f"
    using assms(3) multipart_property_field_returns by blast
  then obtain fs where "for_each (multipart_property_field this s) props = Inr fs"
    using for_each_returns by blast
  then show ?thesis
    by (simp add: fromMultipartFormData_def assms(1) assms(2))
qed

end
